theory Spec2Isabelle
  imports Complex_Main "HOL-Library.Word"
begin

section \<open>Numbers, strings and digests\<close>

text \<open>
  The TypeScript sources compute with \<open>number\<close>. A number is modelled as \<open>NaN\<close> or an
  exact real: the rounding of IEEE doubles, the infinities and the negative zero are not
  modelled. A field of a request body is the number that the handler's comparisons and
  arithmetic see in it: the JSON number, or \<open>NaN\<close> when the field is missing or does not
  convert to a number. Balances and the numeric columns of stored bets are reals
  (the columns are \<open>NOT NULL\<close>, and the store holds no \<open>NaN\<close>); nonces are natural numbers.
\<close>

datatype number = NaN | Num real

text \<open>Comparisons are false as soon as one side is \<open>NaN\<close>.\<close>

fun js_lt :: "number \<Rightarrow> number \<Rightarrow> bool" where
  "js_lt (Num x) (Num y) = (x < y)"
| "js_lt _ _ = False"

fun js_le :: "number \<Rightarrow> number \<Rightarrow> bool" where
  "js_le (Num x) (Num y) = (x \<le> y)"
| "js_le _ _ = False"

fun js_gt :: "number \<Rightarrow> number \<Rightarrow> bool" where
  "js_gt (Num x) (Num y) = (x > y)"
| "js_gt _ _ = False"

text \<open>
  Arithmetic yields \<open>NaN\<close> as soon as one operand is \<open>NaN\<close>. The quotient by zero, an
  infinity or \<open>NaN\<close> in JavaScript, has no counterpart here; \<open>checked_divide\<close> below
  reports it.
\<close>

fun js_sub :: "number \<Rightarrow> number \<Rightarrow> number" where
  "js_sub (Num x) (Num y) = Num (x - y)"
| "js_sub _ _ = NaN"

fun js_mul :: "number \<Rightarrow> number \<Rightarrow> number" where
  "js_mul (Num x) (Num y) = Num (x * y)"
| "js_mul _ _ = NaN"

fun js_div :: "number \<Rightarrow> number \<Rightarrow> number" where
  "js_div (Num x) (Num y) = Num (x / y)"
| "js_div _ _ = NaN"

fun Math_min :: "number \<Rightarrow> number \<Rightarrow> number" where
  "Math_min (Num x) (Num y) = Num (min x y)"
| "Math_min _ _ = NaN"

fun Math_max :: "number \<Rightarrow> number \<Rightarrow> number" where
  "Math_max (Num x) (Num y) = Num (max x y)"
| "Math_max _ _ = NaN"

fun Math_abs :: "number \<Rightarrow> number" where
  "Math_abs (Num x) = Num \<bar>x\<bar>"
| "Math_abs NaN = NaN"

text \<open>\<open>Math.round\<close> rounds half up: \<open>Math.round x = floor (x + 0.5)\<close>.\<close>

fun Math_round :: "number \<Rightarrow> number" where
  "Math_round (Num x) = Num (of_int \<lfloor>x + 1 / 2\<rfloor>)"
| "Math_round NaN = NaN"

text \<open>Decimal rendering of a non-negative integer, as a template literal does.\<close>

definition decimal_chars :: string where
  "decimal_chars = ''0123456789''"

fun number_toString :: "nat \<Rightarrow> string" where
  "number_toString n =
     (if n < 10 then [decimal_chars ! n]
      else number_toString (n div 10) @ [decimal_chars ! (n mod 10)])"

declare number_toString.simps [simp del]

text \<open>
  The library \<open>crypto\<close> is not part of the repository. Its two hash functions are
  parameters of the model: \<open>createHmac('sha256', key).update(msg)\<close> yields a 256-bit
  digest, and \<open>createHash('sha256').update(s).digest('hex')\<close> yields a string.
\<close>

type_synonym hmac_sha256 = "string \<Rightarrow> string \<Rightarrow> 256 word"
type_synonym sha256_hex = "string \<Rightarrow> string"

text \<open>\<open>digest('hex')\<close>: 64 lower-case hexadecimal characters, most significant first.\<close>

definition hex_chars :: string where
  "hex_chars = ''0123456789abcdef''"

definition nibble :: "256 word \<Rightarrow> nat \<Rightarrow> nat" where
  "nibble w i = unat (drop_bit (4 * (63 - i)) w) mod 16"

definition digest_hex :: "256 word \<Rightarrow> string" where
  "digest_hex w = map (\<lambda>i. hex_chars ! nibble w i) [0..<64]"

text \<open>
  \<open>parseInt(s, 16)\<close> on a string without sign, blanks or \<open>0x\<close> prefix (a hex digest has
  none): the value of the longest prefix of hexadecimal digits, \<open>NaN\<close> when that prefix
  is empty.
\<close>

definition hexDigitValue :: "char \<Rightarrow> nat option" where
  "hexDigitValue c =
     (let k = (of_char c :: nat) in
      if 48 \<le> k \<and> k \<le> 57 then Some (k - 48)
      else if 97 \<le> k \<and> k \<le> 102 then Some (k - 87)
      else if 65 \<le> k \<and> k \<le> 70 then Some (k - 55)
      else None)"

fun parseHexDigits :: "nat \<Rightarrow> string \<Rightarrow> nat" where
  "parseHexDigits acc [] = acc"
| "parseHexDigits acc (c # cs) =
     (case hexDigitValue c of
        None \<Rightarrow> acc
      | Some d \<Rightarrow> parseHexDigits (16 * acc + d) cs)"

definition parseInt16 :: "string \<Rightarrow> nat option" where
  "parseInt16 s =
     (case s of
        [] \<Rightarrow> None
      | c # cs \<Rightarrow>
          (case hexDigitValue c of
             None \<Rightarrow> None
           | Some d \<Rightarrow> Some (parseHexDigits d cs)))"

section \<open>Fairness engine (provably-fair module)\<close>

definition verifyServerSeed :: "sha256_hex \<Rightarrow> string \<Rightarrow> string \<Rightarrow> bool" where
  "verifyServerSeed sha serverSeed serverSeedHash \<longleftrightarrow> sha serverSeed = serverSeedHash"

definition generateGameResult :: "hmac_sha256 \<Rightarrow> string \<Rightarrow> string \<Rightarrow> nat \<Rightarrow> number" where
  "generateGameResult hm serverSeed clientSeed nonce =
     (let hash = digest_hex (hm serverSeed (clientSeed @ ''-'' @ number_toString nonce)) in
      case parseInt16 (take 8 hash) of
        None \<Rightarrow> NaN
      | Some decimalValue \<Rightarrow> Num (real (decimalValue mod 10000) / 100))"

text \<open>
  The outcome derivation as the specification words it: the leading 32 bits of the digest
  (its first 8 hexadecimal characters) as an unsigned integer, reduced modulo 10000 and
  divided by 100; and the 10000 two-decimal outcomes.
\<close>

definition deriveOutcome :: "hmac_sha256 \<Rightarrow> string \<Rightarrow> string \<Rightarrow> nat \<Rightarrow> real" where
  "deriveOutcome hm serverSeed clientSeed nonce =
     (let digest = hm serverSeed (clientSeed @ ''-'' @ number_toString nonce);
          first32 = (ucast (drop_bit 224 digest) :: 32 word)
      in real (unat first32 mod 10000) / 100)"

definition outcomes :: "real set" where
  "outcomes = (\<lambda>k. real k / 100) ` {..<10000}"

text \<open>A digest whose leading 32 bits are \<open>k\<close> and whose other bits are zero.\<close>

definition digest_with_prefix :: "nat \<Rightarrow> 256 word" where
  "digest_with_prefix k = word_of_nat (k * 2 ^ 224)"

definition verifyGameResult :: "hmac_sha256 \<Rightarrow> string \<Rightarrow> string \<Rightarrow> nat \<Rightarrow> number \<Rightarrow> bool" where
  "verifyGameResult hm serverSeed clientSeed nonce expectedResult =
     (let calculatedResult = generateGameResult hm serverSeed clientSeed nonce in
      js_lt (Math_abs (js_sub calculatedResult expectedResult)) (Num (1 / 100)))"

definition generateDiceRoll :: "hmac_sha256 \<Rightarrow> string \<Rightarrow> string \<Rightarrow> nat \<Rightarrow> number" where
  "generateDiceRoll hm serverSeed clientSeed nonce =
     generateGameResult hm serverSeed clientSeed nonce"

definition generateCoinFlip :: "hmac_sha256 \<Rightarrow> string \<Rightarrow> string \<Rightarrow> nat \<Rightarrow> nat" where
  "generateCoinFlip hm serverSeed clientSeed nonce =
     (let result = generateGameResult hm serverSeed clientSeed nonce in
      if js_lt result (Num 50) then 0 else 1)"

text \<open>
  The unions \<open>'over' | 'under'\<close> and \<open>'cat' | 'dog'\<close> are modelled as declared.
\<close>

datatype bet_type = Over | Under

datatype bet_side = Cat | Dog

definition isDiceWin :: "number \<Rightarrow> bet_type \<Rightarrow> number \<Rightarrow> bool" where
  "isDiceWin roll betType target =
     (if betType = Over then js_gt roll target else js_lt roll target)"

definition isCoinFlipWin :: "nat \<Rightarrow> bet_side \<Rightarrow> bool" where
  "isCoinFlipWin result betSide =
     (let betValue = (if betSide = Cat then 0 else 1) in result = betValue)"

definition calculateDiceWinChance :: "bet_type \<Rightarrow> number \<Rightarrow> number" where
  "calculateDiceWinChance betType target =
     (if betType = Over then Math_max (Num 0) (Math_min (Num 100) (js_sub (Num 100) target))
      else Math_max (Num 0) (Math_min (Num 100) target))"

text \<open>
  \<open>calculateMultiplier(winChance, houseEdge = 1)\<close>; callers that omit the second argument
  pass the default \<open>1\<close>.
\<close>

definition calculateMultiplier :: "number \<Rightarrow> number \<Rightarrow> number" where
  "calculateMultiplier winChance houseEdge =
     (if js_le winChance (Num 0) then Num 1
      else js_div (js_sub (Num 100) houseEdge) winChance)"

text \<open>
  The same function over a division that reports a zero divisor, to observe whether a
  call can divide by zero.
\<close>

definition checked_divide :: "number \<Rightarrow> number \<Rightarrow> number option" where
  "checked_divide a b = (if b = Num 0 then None else Some (js_div a b))"

definition calculateMultiplier_checked :: "number \<Rightarrow> number \<Rightarrow> number option" where
  "calculateMultiplier_checked winChance houseEdge =
     (if js_le winChance (Num 0) then Some (Num 1)
      else checked_divide (js_sub (Num 100) houseEdge) winChance)"

datatype validation = Valid | Invalid string

definition validateDiceBet :: "number \<Rightarrow> bet_type \<Rightarrow> number \<Rightarrow> real \<Rightarrow> validation" where
  "validateDiceBet amount betType target balance =
     (if js_le amount (Num 0) then Invalid ''Bet amount must be positive''
      else if js_gt amount (Num balance) then Invalid ''Insufficient balance''
      else if js_lt target (Num (1 / 100)) \<or> js_gt target (Num (9999 / 100))
        then Invalid ''Target must be between 0.01 and 99.99''
      else
        (let winChance = calculateDiceWinChance betType target in
         if js_lt winChance (Num 1) \<or> js_gt winChance (Num 98)
           then Invalid ''Win chance must be between 1% and 98%''
         else Valid))"

definition validateCoinFlipBet :: "number \<Rightarrow> bet_side \<Rightarrow> real \<Rightarrow> validation" where
  "validateCoinFlipBet amount side balance =
     (if js_le amount (Num 0) then Invalid ''Bet amount must be positive''
      else if js_gt amount (Num balance) then Invalid ''Insufficient balance''
      else if side \<noteq> Cat \<and> side \<noteq> Dog then Invalid ''Invalid side selection''
      else Valid)"

section \<open>Client-side game utilities\<close>

definition client_calculateDiceWinChance :: "bet_type \<Rightarrow> number \<Rightarrow> number" where
  "client_calculateDiceWinChance betType rollTarget =
     (if betType = Over
      then js_div (Math_round (js_mul (js_sub (Num 100) rollTarget) (Num 100))) (Num 100)
      else js_div (Math_round (js_mul rollTarget (Num 100))) (Num 100))"

definition client_calculateMultiplier :: "number \<Rightarrow> number" where
  "client_calculateMultiplier winChance =
     (if js_gt winChance (Num 0)
      then js_div (Math_round (js_mul (js_div (Num 99) winChance) (Num 10000))) (Num 10000)
      else Num 1)"

section \<open>Ledger store\<close>

text \<open>
  The tables of the schema, with the columns the settlement reads or writes. The
  \<open>bet\<close> table is kept in insertion order. Timestamps are left out. A bet row is
  parametrised by the type of its numeric columns: numbers in the values handed to an
  insert, reals once stored.
\<close>

datatype game_type = Dice | Flip

datatype game_data =
    DiceData bet_type number number
  | FlipData bet_side number

record user_row =
  balance :: real

record 'n bet_row =
  bet_id :: string
  bet_userId :: string
  bet_gameType :: game_type
  bet_amount :: 'n
  bet_multiplier :: 'n
  bet_win :: bool
  bet_payout :: 'n
  bet_serverSeed :: string
  bet_serverSeedHash :: string
  bet_clientSeed :: string
  bet_nonce :: nat
  bet_gameData :: game_data
  bet_result :: 'n

record database =
  user_tbl :: "string \<rightharpoonup> user_row"
  userGameSession_tbl :: "string \<rightharpoonup> nat"
  bet_tbl :: "real bet_row list"

section \<open>Settlement handlers\<close>

text \<open>
  What a handler receives from outside the core: the outcome of the session check
  (with the user snapshot read before the transaction), the parsed request body
  (\<open>None\<close> when parsing throws), and the random values drawn during the request.
\<close>

record session_user =
  user_id :: string
  user_balance :: real

datatype auth_result = NoToken | InvalidSession | SessionUser session_user

record entropy =
  randomServerSeed :: string
  randomClientSeed :: string
  randomUUID :: string

record bet_request =
  amount :: number
  clientSeed :: "string option"

record dice_request = bet_request +
  betType :: bet_type
  target :: number

record flip_request = bet_request +
  side :: bet_side

record bet_result =
  res_betId :: string
  res_win :: bool
  res_payout :: number
  res_newBalance :: number
  res_serverSeedHash :: string
  res_clientSeed :: string
  res_nonce :: nat

record dice_result = bet_result +
  res_roll :: number

record flip_result = bet_result +
  res_flipResult :: bet_side

datatype 'a response = Failure nat string | Success 'a

text \<open>What a transaction callback can throw; a throw rolls the transaction back.\<close>

datatype thrown = Error string | SqliteError | TypeError

definition generateServerSeed :: "sha256_hex \<Rightarrow> entropy \<Rightarrow> string \<times> string" where
  "generateServerSeed sha env = (let seed = randomServerSeed env in (seed, sha seed))"

definition generateClientSeed :: "entropy \<Rightarrow> string" where
  "generateClientSeed env = randomClientSeed env"

text \<open>\<open>clientSeed || generateClientSeed()\<close>: a missing or empty seed is replaced.\<close>

definition finalClientSeed_of :: "string option \<Rightarrow> entropy \<Rightarrow> string" where
  "finalClientSeed_of cs env =
     (case cs of
        None \<Rightarrow> generateClientSeed env
      | Some s \<Rightarrow> if s = [] then generateClientSeed env else s)"

text \<open>
  The nonce read at the head of both transactions. The counter row is created when
  absent; the insert throws on the foreign key \<open>user_id\<close> when there is no such user.
\<close>

definition read_nonce :: "string \<Rightarrow> database \<Rightarrow> thrown + (nat \<times> database)" where
  "read_nonce uid db =
     (case userGameSession_tbl db uid of
        None \<Rightarrow>
          (if user_tbl db uid = None then Inl SqliteError
           else Inr (0, db\<lparr>userGameSession_tbl := (userGameSession_tbl db)(uid \<mapsto> 0)\<rparr>))
      | Some currentNonce \<Rightarrow> Inr (currentNonce, db))"

text \<open>
  The statements run on the transaction handle. \<open>tx.insert(table.bet)\<close>: a \<open>NaN\<close> is
  bound as \<open>NULL\<close>, which the \<open>NOT NULL\<close> numeric columns refuse, and the primary key
  \<open>id\<close> must be fresh; otherwise the statement throws. \<open>tx.update(table.user)\<close> adds
  the balance change, and throws when the sum is \<open>NULL\<close>. \<open>tx.update(table.userGameSession)\<close>
  stores the nonce. An update touches the rows matched by its \<open>where\<close> clause, none when
  there is no such row.
\<close>

definition bind_row :: "number bet_row \<Rightarrow> real bet_row option" where
  "bind_row v =
     (case (bet_amount v, bet_multiplier v, bet_payout v, bet_result v) of
        (Num a, Num m, Num p, Num x) \<Rightarrow>
          Some \<lparr>bet_id = bet_id v, bet_userId = bet_userId v, bet_gameType = bet_gameType v,
                bet_amount = a, bet_multiplier = m, bet_win = bet_win v, bet_payout = p,
                bet_serverSeed = bet_serverSeed v, bet_serverSeedHash = bet_serverSeedHash v,
                bet_clientSeed = bet_clientSeed v, bet_nonce = bet_nonce v,
                bet_gameData = bet_gameData v, bet_result = x\<rparr>
      | _ \<Rightarrow> None)"

definition tx_insert_bet :: "number bet_row \<Rightarrow> database \<Rightarrow> thrown + database" where
  "tx_insert_bet v db =
     (case bind_row v of
        None \<Rightarrow> Inl SqliteError
      | Some b \<Rightarrow>
          if bet_id b \<in> set (map bet_id (bet_tbl db)) then Inl SqliteError
          else Inr (db\<lparr>bet_tbl := bet_tbl db @ [b]\<rparr>))"

definition tx_update_balance :: "string \<Rightarrow> number \<Rightarrow> database \<Rightarrow> thrown + database" where
  "tx_update_balance uid balanceChange db =
     (case user_tbl db uid of
        None \<Rightarrow> Inr db
      | Some u \<Rightarrow>
          (case balanceChange of
             NaN \<Rightarrow> Inl SqliteError
           | Num c \<Rightarrow> Inr (db\<lparr>user_tbl := (user_tbl db)(uid \<mapsto> u\<lparr>balance := balance u + c\<rparr>)\<rparr>)))"

definition tx_update_nonce :: "string \<Rightarrow> nat \<Rightarrow> database \<Rightarrow> database" where
  "tx_update_nonce uid nonce db =
     (case userGameSession_tbl db uid of
        None \<Rightarrow> db
      | Some _ \<Rightarrow> db\<lparr>userGameSession_tbl := (userGameSession_tbl db)(uid \<mapsto> nonce)\<rparr>)"

text \<open>
  The callback passed to \<open>db.transaction\<close> by the dice handler. The result is the value
  returned together with the store as the callback leaves it, or what it throws.
\<close>

definition dice_transaction ::
  "hmac_sha256 \<Rightarrow> entropy \<Rightarrow> string \<Rightarrow> dice_request \<Rightarrow> string \<Rightarrow> string \<Rightarrow> string \<Rightarrow>
   database \<Rightarrow> thrown + (dice_result \<times> database)" where
  "dice_transaction hm env uid betRequest serverSeed serverSeedHash finalClientSeed db =
     (case read_nonce uid db of
        Inl e \<Rightarrow> Inl e
      | Inr (currentNonce, db1) \<Rightarrow>
          (let nonce = currentNonce + 1
           in case user_tbl db1 uid of
                None \<Rightarrow> Inl (Error ''Insufficient balance'')
              | Some currentUser \<Rightarrow>
                  if js_lt (Num (balance currentUser)) (amount betRequest)
                  then Inl (Error ''Insufficient balance'')
                  else
                    (let roll = generateDiceRoll hm serverSeed finalClientSeed nonce;
                         win = isDiceWin roll (betType betRequest) (target betRequest);
                         winChance =
                           calculateDiceWinChance (betType betRequest) (target betRequest);
                         multiplier = calculateMultiplier winChance (Num 1);
                         payout = (if win then js_mul (amount betRequest) multiplier else Num 0);
                         balanceChange = js_sub payout (amount betRequest);
                         betId = randomUUID env
                     in case tx_insert_bet
                          \<lparr>bet_id = betId, bet_userId = uid, bet_gameType = Dice,
                           bet_amount = amount betRequest, bet_multiplier = multiplier,
                           bet_win = win, bet_payout = payout, bet_serverSeed = serverSeed,
                           bet_serverSeedHash = serverSeedHash,
                           bet_clientSeed = finalClientSeed, bet_nonce = nonce,
                           bet_gameData =
                             DiceData (betType betRequest) (target betRequest) winChance,
                           bet_result = roll\<rparr> db1 of
                          Inl e \<Rightarrow> Inl e
                        | Inr db2 \<Rightarrow>
                            (case tx_update_balance uid balanceChange db2 of
                               Inl e \<Rightarrow> Inl e
                             | Inr db3 \<Rightarrow>
                                 (let db4 = tx_update_nonce uid nonce db3
                                  in case user_tbl db4 uid of
                                       None \<Rightarrow> Inl TypeError
                                     | Some updatedUser \<Rightarrow>
                                         Inr (\<lparr>res_betId = betId, res_win = win,
                                               res_payout =
                                                 js_div (Math_round (js_mul payout (Num 100)))
                                                   (Num 100),
                                               res_newBalance =
                                                 js_div (Math_round
                                                   (js_mul (Num (balance updatedUser)) (Num 100)))
                                                   (Num 100),
                                               res_serverSeedHash = serverSeedHash,
                                               res_clientSeed = finalClientSeed,
                                               res_nonce = nonce,
                                               res_roll =
                                                 js_div (Math_round (js_mul roll (Num 100)))
                                                   (Num 100)\<rparr>, db4))))))"

text \<open>The \<open>catch\<close> block of both handlers.\<close>

definition error_response :: "thrown \<Rightarrow> 'a response" where
  "error_response e =
     (if e = Error ''Insufficient balance'' then Failure 400 ''Insufficient balance''
      else Failure 500 ''Internal server error'')"

text \<open>
  \<open>POST /api/game/dice\<close>: the response and the store after the request. A transaction
  that throws is rolled back, so the store is the one the request found.
\<close>

definition dice_POST ::
  "hmac_sha256 \<Rightarrow> sha256_hex \<Rightarrow> entropy \<Rightarrow> auth_result \<Rightarrow> dice_request option \<Rightarrow>
   database \<Rightarrow> dice_result response \<times> database" where
  "dice_POST hm sha env au body db =
     (case au of
        NoToken \<Rightarrow> (Failure 401 ''Authentication required'', db)
      | InvalidSession \<Rightarrow> (Failure 401 ''Invalid session'', db)
      | SessionUser user \<Rightarrow>
          (case body of
             None \<Rightarrow> (Failure 400 ''Invalid request body'', db)
           | Some betRequest \<Rightarrow>
               (case validateDiceBet (amount betRequest) (betType betRequest) (target betRequest)
                       (user_balance user) of
                  Invalid err \<Rightarrow> (Failure 400 err, db)
                | Valid \<Rightarrow>
                    (let (serverSeed, serverSeedHash) = generateServerSeed sha env;
                         finalClientSeed = finalClientSeed_of (clientSeed betRequest) env
                     in case dice_transaction hm env (user_id user) betRequest serverSeed
                               serverSeedHash finalClientSeed db of
                          Inl e \<Rightarrow> (error_response e, db)
                        | Inr (result, db') \<Rightarrow> (Success result, db')))))"

text \<open>The callback passed to \<open>db.transaction\<close> by the coin flip handler.\<close>

definition flip_transaction ::
  "hmac_sha256 \<Rightarrow> entropy \<Rightarrow> string \<Rightarrow> flip_request \<Rightarrow> string \<Rightarrow> string \<Rightarrow> string \<Rightarrow>
   database \<Rightarrow> thrown + (flip_result \<times> database)" where
  "flip_transaction hm env uid betRequest serverSeed serverSeedHash finalClientSeed db =
     (case read_nonce uid db of
        Inl e \<Rightarrow> Inl e
      | Inr (currentNonce, db1) \<Rightarrow>
          (let nonce = currentNonce + 1
           in case user_tbl db1 uid of
                None \<Rightarrow> Inl (Error ''Insufficient balance'')
              | Some currentUser \<Rightarrow>
                  if js_lt (Num (balance currentUser)) (amount betRequest)
                  then Inl (Error ''Insufficient balance'')
                  else
                    (let flipResultValue = generateCoinFlip hm serverSeed finalClientSeed nonce;
                         flipResult = (if flipResultValue = 0 then Cat else Dog);
                         win = isCoinFlipWin flipResultValue (side betRequest);
                         winChance = Num (495 / 10);
                         multiplier = calculateMultiplier winChance (Num 1);
                         payout = (if win then js_mul (amount betRequest) multiplier else Num 0);
                         balanceChange = js_sub payout (amount betRequest);
                         betId = randomUUID env
                     in case tx_insert_bet
                          \<lparr>bet_id = betId, bet_userId = uid, bet_gameType = Flip,
                           bet_amount = amount betRequest, bet_multiplier = multiplier,
                           bet_win = win, bet_payout = payout, bet_serverSeed = serverSeed,
                           bet_serverSeedHash = serverSeedHash,
                           bet_clientSeed = finalClientSeed, bet_nonce = nonce,
                           bet_gameData = FlipData (side betRequest) winChance,
                           bet_result = Num (real flipResultValue)\<rparr> db1 of
                          Inl e \<Rightarrow> Inl e
                        | Inr db2 \<Rightarrow>
                            (case tx_update_balance uid balanceChange db2 of
                               Inl e \<Rightarrow> Inl e
                             | Inr db3 \<Rightarrow>
                                 (let db4 = tx_update_nonce uid nonce db3
                                  in case user_tbl db4 uid of
                                       None \<Rightarrow> Inl TypeError
                                     | Some updatedUser \<Rightarrow>
                                         Inr (\<lparr>res_betId = betId, res_win = win,
                                               res_payout =
                                                 js_div (Math_round (js_mul payout (Num 100)))
                                                   (Num 100),
                                               res_newBalance =
                                                 js_div (Math_round
                                                   (js_mul (Num (balance updatedUser)) (Num 100)))
                                                   (Num 100),
                                               res_serverSeedHash = serverSeedHash,
                                               res_clientSeed = finalClientSeed,
                                               res_nonce = nonce,
                                               res_flipResult = flipResult\<rparr>, db4))))))"

text \<open>\<open>POST /api/game/flip\<close>.\<close>

definition flip_POST ::
  "hmac_sha256 \<Rightarrow> sha256_hex \<Rightarrow> entropy \<Rightarrow> auth_result \<Rightarrow> flip_request option \<Rightarrow>
   database \<Rightarrow> flip_result response \<times> database" where
  "flip_POST hm sha env au body db =
     (case au of
        NoToken \<Rightarrow> (Failure 401 ''Authentication required'', db)
      | InvalidSession \<Rightarrow> (Failure 401 ''Invalid session'', db)
      | SessionUser user \<Rightarrow>
          (case body of
             None \<Rightarrow> (Failure 400 ''Invalid request body'', db)
           | Some betRequest \<Rightarrow>
               (case validateCoinFlipBet (amount betRequest) (side betRequest) (user_balance user) of
                  Invalid err \<Rightarrow> (Failure 400 err, db)
                | Valid \<Rightarrow>
                    (let (serverSeed, serverSeedHash) = generateServerSeed sha env;
                         finalClientSeed = finalClientSeed_of (clientSeed betRequest) env
                     in case flip_transaction hm env (user_id user) betRequest serverSeed
                               serverSeedHash finalClientSeed db of
                          Inl e \<Rightarrow> (error_response e, db)
                        | Inr (result, db') \<Rightarrow> (Success result, db')))))"

section \<open>Verification endpoint\<close>

record verify_data =
  v_betId :: string
  v_verified :: bool
  v_expectedResult :: real
  v_calculatedResult :: number
  v_gameType :: game_type
  v_seedHashValid :: bool

text \<open>
  \<open>GET /api/game/verify?betId=...\<close>. The column \<open>gameType\<close> holds \<open>dice\<close> or \<open>flip\<close>; the
  branch for any other value is not reachable through the type and is left out.
\<close>

definition verify_GET ::
  "hmac_sha256 \<Rightarrow> sha256_hex \<Rightarrow> auth_result \<Rightarrow> string option \<Rightarrow> database \<Rightarrow> verify_data response"
  where
  "verify_GET hm sha au betIdParam db =
     (case au of
        NoToken \<Rightarrow> Failure 401 ''Authentication required''
      | InvalidSession \<Rightarrow> Failure 401 ''Invalid session''
      | SessionUser user \<Rightarrow>
          (case betIdParam of
             None \<Rightarrow> Failure 400 ''Bet ID is required''
           | Some betId \<Rightarrow>
               if betId = [] then Failure 400 ''Bet ID is required''
               else
                 (case filter (\<lambda>b. bet_id b = betId \<and> bet_userId b = user_id user) (bet_tbl db) of
                    [] \<Rightarrow> Failure 404 ''Bet not found''
                  | bet # _ \<Rightarrow>
                      (let seedHashValid =
                             verifyServerSeed sha (bet_serverSeed bet) (bet_serverSeedHash bet);
                           calculatedResult =
                             (if bet_gameType bet = Dice
                              then generateDiceRoll hm (bet_serverSeed bet) (bet_clientSeed bet)
                                     (bet_nonce bet)
                              else Num (real (generateCoinFlip hm (bet_serverSeed bet)
                                     (bet_clientSeed bet) (bet_nonce bet))));
                           verified =
                             (seedHashValid \<and>
                              verifyGameResult hm (bet_serverSeed bet) (bet_clientSeed bet)
                                (bet_nonce bet) (Num (bet_result bet)))
                       in Success \<lparr>v_betId = bet_id bet, v_verified = verified,
                                    v_expectedResult = bet_result bet,
                                    v_calculatedResult = calculatedResult,
                                    v_gameType = bet_gameType bet,
                                    v_seedHashValid = seedHashValid\<rparr>))))"

section \<open>Reachable stores\<close>

text \<open>
  The stores the system can commit: starting from empty tables, a registration
  (\<open>handleRegister\<close>) inserts a user row, whose balance is the schema's default 1000, and
  every dice or coin flip request leaves the store its handler returns. Transactions run one at a time (the store is driven
  synchronously), so a run is a sequence of such steps.
\<close>

definition empty_database :: database where
  "empty_database = \<lparr>user_tbl = Map.empty, userGameSession_tbl = Map.empty, bet_tbl = []\<rparr>"

definition register_user :: "string \<Rightarrow> database \<Rightarrow> database" where
  "register_user uid db =
     (case user_tbl db uid of
        None \<Rightarrow> db\<lparr>user_tbl := (user_tbl db)(uid \<mapsto> \<lparr>balance = 1000\<rparr>)\<rparr>
      | Some _ \<Rightarrow> db)"

inductive reachable :: "hmac_sha256 \<Rightarrow> sha256_hex \<Rightarrow> database \<Rightarrow> bool"
  for hm :: hmac_sha256 and sha :: sha256_hex where
  initial: "reachable hm sha empty_database"
| registered: "reachable hm sha db \<Longrightarrow> reachable hm sha (register_user uid db)"
| dice_settled:
    "reachable hm sha db \<Longrightarrow> reachable hm sha (snd (dice_POST hm sha env au body db))"
| flip_settled:
    "reachable hm sha db \<Longrightarrow> reachable hm sha (snd (flip_POST hm sha env au body db))"

text \<open>The nonces of a user's bets in the order of insertion, and the user's counter.\<close>

definition nonces_of :: "string \<Rightarrow> database \<Rightarrow> nat list" where
  "nonces_of uid db = map bet_nonce (filter (\<lambda>b. bet_userId b = uid) (bet_tbl db))"

definition currentNonce_of :: "string \<Rightarrow> database \<Rightarrow> nat" where
  "currentNonce_of uid db = (case userGameSession_tbl db uid of None \<Rightarrow> 0 | Some n \<Rightarrow> n)"

section \<open>Example data\<close>

text \<open>
  One concrete run, used to evaluate the handlers: the server seed is a possible output
  of \<open>randomBytes(32).toString('hex')\<close>, \<open>example_digest\<close> is the HMAC-SHA256 digest of
  the message \<open>xyz-1\<close> under that seed as key, and the hash is the SHA-256 of the seed.
  The two hash functions are given at these points only. User \<open>alice\<close> has just
  registered; user \<open>bob\<close> holds a balance of 500.
\<close>

definition example_serverSeed :: string where
  "example_serverSeed = ''5eed5eed5eed5eed5eed5eed5eed5eed5eed5eed5eed5eed5eed5eed5eed5eed''"

definition example_digest :: "256 word" where
  "example_digest = 0xa69efdbfba9bfdb5cb10ffd16d4c8ca40ae3c1adeb2ddd994b1904df4f6af699"

definition example_hmac :: hmac_sha256 where
  "example_hmac key msg =
     (if key = example_serverSeed \<and> msg = ''xyz-1'' then example_digest else 0)"

definition example_sha256 :: sha256_hex where
  "example_sha256 s =
     (if s = example_serverSeed
      then ''9619e2c3275e1e8be9ca29f0d7e0668cfdc675efcac99dbfa3ed48872c69809f'' else [])"

definition example_entropy :: entropy where
  "example_entropy =
     \<lparr>randomServerSeed = example_serverSeed,
      randomClientSeed = ''00112233445566778899aabbccddeeff'',
      randomUUID = ''3b241101-e2bb-4255-8caf-4136c566a962''\<rparr>"

definition alice :: session_user where
  "alice = \<lparr>user_id = ''alice'', user_balance = 1000\<rparr>"

definition example_database :: database where
  "example_database = register_user ''alice'' empty_database"

definition example_dice_request :: dice_request where
  "example_dice_request = \<lparr>amount = Num 100, clientSeed = Some ''xyz'', betType = Over, target = Num 50\<rparr>"

definition example_flip_request :: flip_request where
  "example_flip_request = \<lparr>amount = Num 50, clientSeed = Some ''xyz'', side = Cat\<rparr>"

definition bob :: session_user where
  "bob = \<lparr>user_id = ''bob'', user_balance = 500\<rparr>"

definition example_flip_database :: database where
  "example_flip_database =
     \<lparr>user_tbl = [''bob'' \<mapsto> \<lparr>balance = 500\<rparr>], userGameSession_tbl = Map.empty, bet_tbl = []\<rparr>"

section \<open>Properties of the fairness engine\<close>

lemma hexDigitValue_all: "list_all (\<lambda>n. hexDigitValue (hex_chars ! n) = Some n) [0..<16]"
  by code_simp

lemma hexDigitValue_hex_chars: "n < 16 \<Longrightarrow> hexDigitValue (hex_chars ! n) = Some n"
  using hexDigitValue_all by (simp add: list_all_iff)

lemma parseHexDigits_map:
  "(\<And>i. i \<in> set js \<Longrightarrow> f i < 16) \<Longrightarrow>
   parseHexDigits acc (map (\<lambda>i. hex_chars ! f i) js) = foldl (\<lambda>a i. 16 * a + f i) acc js"
  by (induction js arbitrary: acc) (simp_all add: hexDigitValue_hex_chars)

lemma horner_digits:
  "m \<le> n \<Longrightarrow>
   foldl (\<lambda>a i. 16 * a + (u div 16 ^ (n - 1 - i)) mod 16) (0::nat) [0..<m] = (u div 16 ^ (n - m)) mod 16 ^ m"
proof (induction m)
  case 0
  then show ?case by simp
next
  case (Suc m)
  let ?x = "u div 16 ^ (n - Suc m)"
  have e: "n - m = Suc (n - Suc m)" using Suc.prems by simp
  have "u div 16 ^ (n - m) = u div (16 ^ (n - Suc m) * 16)"
    by (simp add: e mult.commute)
  also have "\<dots> = ?x div 16"
    by (rule div_mult2_eq)
  finally have "u div 16 ^ (n - m) = ?x div 16" .
  with Suc show ?case
    by (simp add: mod_mult2_eq)
qed

lemma unat_drop_bit_div: "unat (drop_bit k w) = unat w div 2 ^ k"
  unfolding unat_drop_bit_eq by (rule drop_bit_eq_div)

lemma nibble_eq: "i < 8 \<Longrightarrow> nibble w i = (unat (drop_bit 224 w) div 16 ^ (8 - 1 - i)) mod 16"
proof -
  assume i: "i < 8"
  have "4 * (63 - i) = 224 + 4 * (7 - i)" using i by simp
  then have "unat (drop_bit (4 * (63 - i)) w) = unat w div 2 ^ 224 div 2 ^ (4 * (7 - i))"
    by (simp only: unat_drop_bit_div power_add div_mult2_eq)
  moreover have "(2::nat) ^ (4 * (7 - i)) = 16 ^ (7 - i)"
    by (simp add: power_mult)
  ultimately show ?thesis
    using i by (simp add: nibble_def unat_drop_bit_div)
qed

lemma take8_digest_hex: "take 8 (digest_hex w) = map (\<lambda>i. hex_chars ! nibble w i) [0..<8]"
  by (simp add: digest_hex_def take_map)

lemma prefix_lt: "unat (drop_bit 224 (w :: 256 word)) < 16 ^ 8"
proof -
  have "unat w < 2 ^ 256" using unsigned_less [of w] by simp
  then have "unat w div 2 ^ 224 < 2 ^ 32" by (simp add: less_mult_imp_div_less)
  then show ?thesis by (simp add: unat_drop_bit_div)
qed

lemma parseInt16_digest:
  "parseInt16 (take 8 (digest_hex w)) = Some (unat (drop_bit 224 w))"
proof -
  let ?u = "unat (drop_bit 224 w)"
  let ?f = "\<lambda>i. (?u div 16 ^ (8 - 1 - i)) mod 16"
  have t: "take 8 (digest_hex w) = map (\<lambda>i. hex_chars ! ?f i) [0..<8]"
    by (simp add: take8_digest_hex nibble_eq)
  have "[0..<8] = 0 # [1..<8]" by (simp add: upt_rec)
  then have "parseInt16 (take 8 (digest_hex w)) = Some (parseHexDigits 0 (take 8 (digest_hex w)))"
    by (simp add: t parseInt16_def hexDigitValue_hex_chars)
  also have "parseHexDigits 0 (take 8 (digest_hex w)) = foldl (\<lambda>a i. 16 * a + ?f i) 0 [0..<8]"
    unfolding t by (rule parseHexDigits_map) simp
  also have "\<dots> = (?u div 16 ^ (8 - 8)) mod 16 ^ 8"
    by (rule horner_digits) simp
  also have "\<dots> = ?u" using prefix_lt [of w] by simp
  finally show ?thesis .
qed



lemma unat_first32: "unat (ucast (drop_bit 224 (w :: 256 word)) :: 32 word) = unat (drop_bit 224 w)"
  using prefix_lt [of w] by (simp add: unsigned_ucast_eq take_bit_nat_eq_self)

lemma generateGameResult_eq:
  "generateGameResult hm ss cs n = Num (deriveOutcome hm ss cs n)"
  by (simp add: generateGameResult_def deriveOutcome_def parseInt16_digest unat_first32 Let_def)

lemma deriveOutcome_in_outcomes: "deriveOutcome hm ss cs n \<in> outcomes"
  by (simp add: deriveOutcome_def outcomes_def Let_def)

lemma outcomes_bounds: "x \<in> outcomes \<Longrightarrow> 0 \<le> x \<and> x \<le> 9999 / 100"
  by (auto simp: outcomes_def)

lemma card_outcomes: "card outcomes = 10000"
proof -
  have "inj_on (\<lambda>k. real k / 100) {..<10000}"
    by (rule inj_onI) simp
  then show ?thesis
    by (simp add: outcomes_def card_image)
qed

lemma unat_digest_with_prefix:
  assumes "k < 2 ^ 32"
  shows "unat (drop_bit 224 (digest_with_prefix k)) = k"
proof -
  have "k * 2 ^ 224 < 2 ^ 32 * (2::nat) ^ 224"
    using assms by (simp only: mult_less_cancel2) simp
  then have "k * 2 ^ 224 < (2::nat) ^ LENGTH(256)" by simp
  then have "unat (digest_with_prefix k) = k * 2 ^ 224"
    unfolding digest_with_prefix_def unat_of_nat by (rule mod_less)
  then show ?thesis
    by (simp only: unat_drop_bit_div) simp
qed

lemma deriveOutcome_const:
  assumes "k < 10000"
  shows "deriveOutcome (\<lambda>_ _. digest_with_prefix k) ss cs n = real k / 100"
proof -
  have "k < 2 ^ 32" using assms by simp
  then show ?thesis
    using assms by (simp add: deriveOutcome_def unat_first32 unat_digest_with_prefix Let_def)
qed

lemma range_generateGameResult:
  "range (\<lambda>hm. generateGameResult hm ss cs n) = Num ` outcomes"
proof (intro equalityI subsetI)
  fix x assume "x \<in> range (\<lambda>hm. generateGameResult hm ss cs n)"
  then show "x \<in> Num ` outcomes"
    by (auto simp: generateGameResult_eq deriveOutcome_in_outcomes)
next
  fix x assume "x \<in> Num ` outcomes"
  then obtain k :: nat where k: "k < 10000" and x: "x = Num (real k / 100)"
    by (auto simp: outcomes_def)
  have "generateGameResult (\<lambda>_ _. digest_with_prefix k) ss cs n = x"
    by (simp add: generateGameResult_eq deriveOutcome_const [OF k] x)
  then show "x \<in> range (\<lambda>hm. generateGameResult hm ss cs n)"
    by blast
qed


lemma generateCoinFlip_eq:
  "generateCoinFlip hm ss cs n = (if deriveOutcome hm ss cs n < 50 then 0 else 1)"
  by (simp add: generateCoinFlip_def generateGameResult_eq)

text \<open>
  Claim C2. For every server seed, client seed and nonce, \<open>generateGameResult\<close> returns
  the value the specification describes: the HMAC-SHA256 digest keyed by the server seed
  over \<open>clientSeed-nonce\<close>, its first 8 hexadecimal characters read as an unsigned 32-bit
  integer, modulo 10000, divided by 100. The value lies between 0.00 and 99.99, and
  over all digests the values taken are exactly the 10000 outcomes \<open>k / 100\<close>, \<open>k < 10000\<close>.
\<close>

theorem generateGameResult_deriveOutcome:
  "generateGameResult hm ss cs n = Num (deriveOutcome hm ss cs n)
   \<and> 0 \<le> deriveOutcome hm ss cs n \<and> deriveOutcome hm ss cs n \<le> 9999 / 100
   \<and> range (\<lambda>h. generateGameResult h ss cs n) = Num ` outcomes
   \<and> card outcomes = 10000"
  using outcomes_bounds [OF deriveOutcome_in_outcomes [of hm ss cs n]]
    generateGameResult_eq [of hm ss cs n] range_generateGameResult [of ss cs n] card_outcomes
  by simp

theorem generateGameResult_deriveOutcome_witness:
  "generateGameResult (\<lambda>_ _. digest_with_prefix 1234) ''seed'' ''xyz'' 1 = Num (1234 / 100)"
  using generateGameResult_deriveOutcome [of "\<lambda>_ _. digest_with_prefix 1234" "''seed''" "''xyz''" 1]
    deriveOutcome_const [of 1234 "''seed''" "''xyz''" 1]
  by simp

section \<open>Properties of the multiplier\<close>

lemma calculateMultiplier_Num:
  "calculateMultiplier (Num w) (Num h) = Num (if w \<le> 0 then 1 else (100 - h) / w)"
  by (simp add: calculateMultiplier_def)

lemma calculateMultiplier_NaN: "calculateMultiplier NaN h = NaN"
  by (cases h) (simp_all add: calculateMultiplier_def)

lemma calculateMultiplier_checked_eq:
  "calculateMultiplier_checked w h = Some (calculateMultiplier w h)"
  by (cases w) (auto simp: calculateMultiplier_checked_def calculateMultiplier_def
      checked_divide_def)

text \<open>
  Claim C10. The server-side multiplier is total and never divides by zero: computed over
  a division that reports a zero divisor it always yields a value, the value of
  \<open>calculateMultiplier\<close>, for every win chance and house edge, \<open>NaN\<close> included; with the
  default house edge 1 that value is 1 for every win chance \<open>\<le> 0\<close> and
  \<open>(100 - 1) / winChance\<close> otherwise.
\<close>

theorem calculateMultiplier_guarded:
  "calculateMultiplier_checked winChance houseEdge \<noteq> None
   \<and> calculateMultiplier_checked winChance houseEdge = Some (calculateMultiplier winChance houseEdge)
   \<and> calculateMultiplier (Num w) (Num 1) = Num (if w \<le> 0 then 1 else (100 - 1) / w)"
  by (simp add: calculateMultiplier_checked_eq calculateMultiplier_Num)

theorem calculateMultiplier_guarded_witness:
  "calculateMultiplier_checked (Num 0) (Num 1) = Some (Num 1)
   \<and> calculateMultiplier (Num 50) (Num 1) = Num (198 / 100)"
  using calculateMultiplier_guarded [of "Num 0" "Num 1" 50]
  by (simp add: calculateMultiplier_def)

text \<open>
  Claim C9, as stated, fails: at the accepted win chance 7 the client-side multiplier is
  14.1429 and the server-side multiplier is 99/7.
\<close>

theorem client_multiplier_differs:
  "(1::real) \<le> 7 \<and> (7::real) \<le> 98
   \<and> client_calculateMultiplier (Num 7) \<noteq> calculateMultiplier (Num 7) (Num 1)"
  by (simp add: client_calculateMultiplier_def calculateMultiplier_def)

lemma server_quotient: "js_sub (Num 100) (Num 1) = Num 99"
  by simp

lemma display_round_one: "js_div (Math_round (js_mul (Num 1) (Num 10000))) (Num 10000) = Num 1"
  by simp

text \<open>
  Claim C9, amended. For every win chance that is a number, the client-side multiplier is
  the server-side multiplier \<open>m\<close> (house edge 1) passed through the display rounding
  \<open>Math.round(m * 10000) / 10000\<close>; for a win chance \<open>\<le> 0\<close> both are 1. For \<open>NaN\<close> the
  client returns 1 and the server \<open>NaN\<close>. Nothing is said about how far the two values
  are apart: that depends on the rounding of the arithmetic, which is not modelled.
\<close>

theorem client_multiplier_rounds_server:
  "client_calculateMultiplier (Num w) =
     js_div (Math_round (js_mul (calculateMultiplier (Num w) (Num 1)) (Num 10000))) (Num 10000)
   \<and> (w \<le> 0 \<longrightarrow> client_calculateMultiplier (Num w) = Num 1
                \<and> calculateMultiplier (Num w) (Num 1) = Num 1)
   \<and> client_calculateMultiplier NaN = Num 1 \<and> calculateMultiplier NaN (Num 1) = NaN"
proof -
  have gt: "js_gt (Num w) (Num 0) \<longleftrightarrow> \<not> js_le (Num w) (Num 0)"
    by auto
  have a: "client_calculateMultiplier (Num w) =
     js_div (Math_round (js_mul (calculateMultiplier (Num w) (Num 1)) (Num 10000))) (Num 10000)"
  proof (cases "js_le (Num w) (Num 0)")
    case True
    then have "client_calculateMultiplier (Num w) = Num 1"
      and "calculateMultiplier (Num w) (Num 1) = Num 1"
      unfolding client_calculateMultiplier_def calculateMultiplier_def gt by simp_all
    then show ?thesis by (simp only: display_round_one)
  next
    case False
    then have "client_calculateMultiplier (Num w) =
        js_div (Math_round (js_mul (js_div (Num 99) (Num w)) (Num 10000))) (Num 10000)"
      and "calculateMultiplier (Num w) (Num 1) = js_div (Num 99) (Num w)"
      unfolding client_calculateMultiplier_def calculateMultiplier_def gt server_quotient
      by (simp_all only: if_False if_True not_False_eq_True)
    then show ?thesis by (simp only:)
  qed
  have b: "w \<le> 0 \<longrightarrow> client_calculateMultiplier (Num w) = Num 1
                \<and> calculateMultiplier (Num w) (Num 1) = Num 1"
    by (simp add: client_calculateMultiplier_def calculateMultiplier_def)
  have c: "client_calculateMultiplier NaN = Num 1" "calculateMultiplier NaN (Num 1) = NaN"
    by (simp_all add: client_calculateMultiplier_def calculateMultiplier_def)
  show ?thesis using a b c by blast
qed

theorem client_multiplier_rounds_server_witness:
  "client_calculateMultiplier (Num 7) = Num (141429 / 10000)
   \<and> calculateMultiplier (Num 7) (Num 1) = Num (99 / 7)
   \<and> client_calculateMultiplier (Num 0) = Num 1"
  using client_multiplier_rounds_server [of 7] client_multiplier_rounds_server [of 0]
  by (simp add: calculateMultiplier_def)

section \<open>Properties of the validation\<close>

lemma validateDiceBet_Valid_Num:
  "validateDiceBet (Num a) bt (Num t) bal = Valid \<longleftrightarrow>
     0 < a \<and> a \<le> bal \<and> 1 / 100 \<le> t \<and> t \<le> 9999 / 100
     \<and> js_le (Num 1) (calculateDiceWinChance bt (Num t))
     \<and> js_le (calculateDiceWinChance bt (Num t)) (Num 98)"
  by (cases bt) (auto simp: validateDiceBet_def calculateDiceWinChance_def Let_def)

lemma validateDiceBet_NaN_target:
  "validateDiceBet a bt NaN bal = Valid \<longleftrightarrow> \<not> js_le a (Num 0) \<and> \<not> js_gt a (Num bal)"
  by (cases bt) (auto simp: validateDiceBet_def calculateDiceWinChance_def Let_def)

lemma validateDiceBet_cases:
  "validateDiceBet a bt t bal = Valid \<or> (\<exists>err. validateDiceBet a bt t bal = Invalid err)"
  by (cases "validateDiceBet a bt t bal") simp_all

lemma dice_POST_Invalid:
  "validateDiceBet (amount r) (betType r) (target r) (user_balance u) = Invalid err \<Longrightarrow>
   dice_POST hm sha env (SessionUser u) (Some r) db = (Failure 400 err, db)"
  by (simp add: dice_POST_def)

lemma dice_POST_Success_Valid:
  assumes "dice_POST hm sha env au body db = (Success res, db')"
  obtains u r where "au = SessionUser u" "body = Some r"
    "validateDiceBet (amount r) (betType r) (target r) (user_balance u) = Valid"
    "dice_transaction hm env (user_id u) r (randomServerSeed env) (sha (randomServerSeed env))
       (finalClientSeed_of (clientSeed r) env) db = Inr (res, db')"
  using assms
  by (auto simp: dice_POST_def generateServerSeed_def Let_def error_response_def
      split: auth_result.splits option.splits validation.splits sum.splits if_splits)

text \<open>On numeric targets and amounts the validation does what it announces.\<close>

lemma dice_bet_validation_numeric:
  assumes "amount r = Num a" and "target r = Num t"
  shows "((t < 1 / 100 \<or> t > 9999 / 100
       \<or> js_lt (calculateDiceWinChance (betType r) (target r)) (Num 1)
       \<or> js_gt (calculateDiceWinChance (betType r) (target r)) (Num 98)
       \<or> a \<le> 0)
     \<longrightarrow> (\<exists>err. validateDiceBet (amount r) (betType r) (target r) (user_balance u) = Invalid err
              \<and> dice_POST hm sha env (SessionUser u) (Some r) db = (Failure 400 err, db)))
   \<and> (validateDiceBet (amount r) (betType r) (target r) (user_balance u) = Valid
     \<longrightarrow> 1 / 100 \<le> t \<and> t \<le> 9999 / 100
          \<and> js_le (Num 1) (calculateDiceWinChance (betType r) (target r))
          \<and> js_le (calculateDiceWinChance (betType r) (target r)) (Num 98))"
proof (intro conjI impI)
  assume bad: "t < 1 / 100 \<or> t > 9999 / 100
       \<or> js_lt (calculateDiceWinChance (betType r) (target r)) (Num 1)
       \<or> js_gt (calculateDiceWinChance (betType r) (target r)) (Num 98)
       \<or> a \<le> 0"
  have "validateDiceBet (amount r) (betType r) (target r) (user_balance u) \<noteq> Valid"
    using bad unfolding assms validateDiceBet_Valid_Num
    by (cases "betType r") (auto simp: calculateDiceWinChance_def)
  then obtain err where
    "validateDiceBet (amount r) (betType r) (target r) (user_balance u) = Invalid err"
    using validateDiceBet_cases by blast
  then show "\<exists>err. validateDiceBet (amount r) (betType r) (target r) (user_balance u) = Invalid err
              \<and> dice_POST hm sha env (SessionUser u) (Some r) db = (Failure 400 err, db)"
    by (auto simp: dice_POST_Invalid)
next
  assume "validateDiceBet (amount r) (betType r) (target r) (user_balance u) = Valid"
  then have v: "1 / 100 \<le> t \<and> t \<le> 9999 / 100
          \<and> js_le (Num 1) (calculateDiceWinChance (betType r) (target r))
          \<and> js_le (calculateDiceWinChance (betType r) (target r)) (Num 98)"
    unfolding assms validateDiceBet_Valid_Num by simp
  then show "1 / 100 \<le> t" "t \<le> 9999 / 100"
    "js_le (Num 1) (calculateDiceWinChance (betType r) (target r))"
    "js_le (calculateDiceWinChance (betType r) (target r)) (Num 98)"
    by simp_all
qed

section \<open>The transactions, branch by branch\<close>

lemma read_nonce_user:
  "user_tbl db uid = Some row \<Longrightarrow>
   read_nonce uid db =
     Inr (currentNonce_of uid db,
          db\<lparr>userGameSession_tbl := (userGameSession_tbl db)(uid \<mapsto> currentNonce_of uid db)\<rparr>)"
  by (auto simp: read_nonce_def currentNonce_of_def map_upd_triv split: option.splits)

lemma read_nonce_no_user:
  "user_tbl db uid = None \<Longrightarrow>
   read_nonce uid db =
     (case userGameSession_tbl db uid of None \<Rightarrow> Inl SqliteError | Some n \<Rightarrow> Inr (n, db))"
  by (simp add: read_nonce_def split: option.splits)

lemmas tx_defs = tx_insert_bet_def tx_update_balance_def tx_update_nonce_def bind_row_def

lemma calculateDiceWinChance_Num:
  "calculateDiceWinChance bt (Num t) =
     Num (if bt = Over then max 0 (min 100 (100 - t)) else max 0 (min 100 t))"
  by (simp add: calculateDiceWinChance_def)

lemma calculateDiceWinChance_NaN: "calculateDiceWinChance bt NaN = NaN"
  by (simp add: calculateDiceWinChance_def)

lemma calculateMultiplier_pos: "0 < w \<Longrightarrow> \<exists>m. calculateMultiplier (Num w) (Num 1) = Num m \<and> 0 < m"
  by (simp add: calculateMultiplier_def)

lemma dice_transaction_no_user:
  "user_tbl db uid = None \<Longrightarrow>
   \<exists>e. dice_transaction hm env uid r ss ssh cs db = Inl e"
  by (simp add: dice_transaction_def read_nonce_no_user split: option.splits)

lemma dice_transaction_insufficient:
  "user_tbl db uid = Some row \<Longrightarrow> js_lt (Num (balance row)) (amount r) \<Longrightarrow>
   dice_transaction hm env uid r ss ssh cs db = Inl (Error ''Insufficient balance'')"
  by (simp add: dice_transaction_def read_nonce_user)

lemma dice_transaction_NaN_amount:
  "user_tbl db uid = Some row \<Longrightarrow> amount r = NaN \<Longrightarrow>
   dice_transaction hm env uid r ss ssh cs db = Inl SqliteError"
  by (simp add: dice_transaction_def read_nonce_user tx_defs Let_def)

lemma dice_transaction_NaN_target:
  "user_tbl db uid = Some row \<Longrightarrow> \<not> js_lt (Num (balance row)) (amount r) \<Longrightarrow>
   target r = NaN \<Longrightarrow>
   dice_transaction hm env uid r ss ssh cs db = Inl SqliteError"
  by (simp add: dice_transaction_def read_nonce_user tx_defs Let_def
      calculateDiceWinChance_NaN calculateMultiplier_NaN split: number.splits)

lemma dice_transaction_duplicate:
  "user_tbl db uid = Some row \<Longrightarrow> \<not> js_lt (Num (balance row)) (amount r) \<Longrightarrow>
   randomUUID env \<in> set (map bet_id (bet_tbl db)) \<Longrightarrow>
   dice_transaction hm env uid r ss ssh cs db = Inl SqliteError"
  by (simp add: dice_transaction_def read_nonce_user tx_defs Let_def
      split: number.splits prod.splits)

lemma dice_transaction_commit:
  assumes "user_tbl db uid = Some row" and "amount r = Num a" and "\<not> balance row < a"
    and "randomUUID env \<notin> set (map bet_id (bet_tbl db))"
    and "calculateDiceWinChance (betType r) (target r) = Num wc"
    and "calculateMultiplier (Num wc) (Num 1) = Num m"
  shows "dice_transaction hm env uid r ss ssh cs db =
    (let nonce = Suc (currentNonce_of uid db);
         roll = deriveOutcome hm ss cs nonce;
         win = isDiceWin (Num roll) (betType r) (target r);
         payout = (if win then a * m else 0)
     in Inr (\<lparr>res_betId = randomUUID env, res_win = win,
              res_payout = js_div (Math_round (js_mul (Num payout) (Num 100))) (Num 100),
              res_newBalance =
                js_div (Math_round (js_mul (Num (balance row + (payout - a))) (Num 100))) (Num 100),
              res_serverSeedHash = ssh, res_clientSeed = cs, res_nonce = nonce,
              res_roll = js_div (Math_round (js_mul (Num roll) (Num 100))) (Num 100)\<rparr>,
             \<lparr>user_tbl = (user_tbl db)(uid \<mapsto> row\<lparr>balance := balance row + (payout - a)\<rparr>),
              userGameSession_tbl = (userGameSession_tbl db)(uid \<mapsto> nonce),
              bet_tbl = bet_tbl db @
                [\<lparr>bet_id = randomUUID env, bet_userId = uid, bet_gameType = Dice,
                  bet_amount = a, bet_multiplier = m, bet_win = win,
                  bet_payout = payout, bet_serverSeed = ss, bet_serverSeedHash = ssh,
                  bet_clientSeed = cs, bet_nonce = nonce,
                  bet_gameData = DiceData (betType r) (target r) (Num wc),
                  bet_result = roll\<rparr>]\<rparr>))"
  using assms
  by (simp add: dice_transaction_def read_nonce_user generateDiceRoll_def generateGameResult_eq
      tx_defs Let_def)


lemma calculateMultiplier_Num_pos: "calculateMultiplier (Num wc) (Num 1) = Num m \<Longrightarrow> 0 < m"
  by (auto simp: calculateMultiplier_def split: if_splits)

lemma dice_transaction_Inr:
  assumes "dice_transaction hm env uid r ss ssh cs db = Inr (res, db')"
  obtains row a wc m where "user_tbl db uid = Some row" "amount r = Num a"
    "\<not> balance row < a" "randomUUID env \<notin> set (map bet_id (bet_tbl db))"
    "calculateDiceWinChance (betType r) (target r) = Num wc"
    "calculateMultiplier (Num wc) (Num 1) = Num m"
proof (cases "user_tbl db uid")
  case None
  then show ?thesis
    using assms dice_transaction_no_user [of db uid hm env r ss ssh cs] by auto
next
  case (Some row)
  note row = this
  show ?thesis
  proof (cases "amount r")
    case NaN
    then show ?thesis using assms row by (simp add: dice_transaction_NaN_amount)
  next
    case (Num a)
    note a = this
    show ?thesis
    proof (cases "balance row < a")
      case True
      then show ?thesis using assms row a by (simp add: dice_transaction_insufficient)
    next
      case False
      note enough = this
      show ?thesis
      proof (cases "target r")
        case NaN
        then show ?thesis
          using assms row a enough by (simp add: dice_transaction_NaN_target)
      next
        case (Num t)
        note t = this
        show ?thesis
        proof (cases "randomUUID env \<in> set (map bet_id (bet_tbl db))")
          case True
          then show ?thesis
            using assms row a enough by (simp add: dice_transaction_duplicate)
        next
          case False
          obtain wc where wc: "calculateDiceWinChance (betType r) (target r) = Num wc"
            unfolding t calculateDiceWinChance_Num by blast
          obtain m where m: "calculateMultiplier (Num wc) (Num 1) = Num m"
            unfolding calculateMultiplier_Num by blast
          show ?thesis using that [OF row a enough False wc m] .
        qed
      qed
    qed
  qed
qed

lemma dice_POST_Valid:
  "validateDiceBet (amount r) (betType r) (target r) (user_balance u) = Valid \<Longrightarrow>
   dice_POST hm sha env (SessionUser u) (Some r) db =
     (case dice_transaction hm env (user_id u) r (randomServerSeed env) (sha (randomServerSeed env))
             (finalClientSeed_of (clientSeed r) env) db of
        Inl e \<Rightarrow> (error_response e, db)
      | Inr (result, db') \<Rightarrow> (Success result, db'))"
  by (simp add: dice_POST_def generateServerSeed_def Let_def)

lemma dice_POST_unchanged_or_Success:
  "snd (dice_POST hm sha env au body db) = db
   \<or> (\<exists>res. dice_POST hm sha env au body db = (Success res, snd (dice_POST hm sha env au body db)))"
  by (auto simp: dice_POST_def generateServerSeed_def Let_def
      split: auth_result.splits option.splits validation.splits sum.splits)

lemma validate_amount_pos:
  "validateDiceBet (Num a) bt t bal = Valid \<Longrightarrow> 0 < a"
  "validateCoinFlipBet (Num a) s bal = Valid \<Longrightarrow> 0 < a"
  by (auto simp: validateDiceBet_def validateCoinFlipBet_def split: if_splits)

lemma dice_POST_step:
  obtains (unchanged) "snd (dice_POST hm sha env au body db) = db"
  | (settled) uid row b where
      "user_tbl db uid = Some row" "0 < bet_amount b" "bet_amount b \<le> balance row"
      "0 \<le> bet_payout b" "bet_userId b = uid" "bet_nonce b = Suc (currentNonce_of uid db)"
      "bet_tbl (snd (dice_POST hm sha env au body db)) = bet_tbl db @ [b]"
      "userGameSession_tbl (snd (dice_POST hm sha env au body db)) =
         (userGameSession_tbl db)(uid \<mapsto> bet_nonce b)"
      "user_tbl (snd (dice_POST hm sha env au body db)) =
         (user_tbl db)(uid \<mapsto> row\<lparr>balance := balance row + (bet_payout b - bet_amount b)\<rparr>)"
proof -
  let ?db' = "snd (dice_POST hm sha env au body db)"
  consider "?db' = db" | res where "dice_POST hm sha env au body db = (Success res, ?db')"
    using dice_POST_unchanged_or_Success [of hm sha env au body db] by blast
  then show ?thesis
  proof cases
    case 1
    then show ?thesis by (rule unchanged)
  next
    case 2
    then obtain u r where au: "au = SessionUser u" "body = Some r"
      and v: "validateDiceBet (amount r) (betType r) (target r) (user_balance u) = Valid"
      and tx: "dice_transaction hm env (user_id u) r (randomServerSeed env)
         (sha (randomServerSeed env)) (finalClientSeed_of (clientSeed r) env) db = Inr (res, ?db')"
      by (rule dice_POST_Success_Valid)
    from tx obtain row a wc m where row: "user_tbl db (user_id u) = Some row"
      and a: "amount r = Num a" and enough: "\<not> balance row < a"
      and fresh: "randomUUID env \<notin> set (map bet_id (bet_tbl db))"
      and wc: "calculateDiceWinChance (betType r) (target r) = Num wc"
      and m: "calculateMultiplier (Num wc) (Num 1) = Num m"
      by (rule dice_transaction_Inr)
    have pos: "0 < a" using v a validate_amount_pos(1) by simp
    have mpos: "0 < m" using m by (rule calculateMultiplier_Num_pos)
    note commit = dice_transaction_commit [OF row a enough fresh wc m, of hm
        "randomServerSeed env" "sha (randomServerSeed env)" "finalClientSeed_of (clientSeed r) env"]
    have db': "?db' = snd (projr (dice_transaction hm env (user_id u) r (randomServerSeed env)
         (sha (randomServerSeed env)) (finalClientSeed_of (clientSeed r) env) db))"
      using tx by simp
    show ?thesis
      using row enough pos mpos
      by (intro settled [where uid = "user_id u" and row = row and b = "last (bet_tbl ?db')"])
         (simp_all add: db' commit Let_def)
  qed
qed


lemma flip_multiplier:
  "calculateMultiplier (Num (495 / 10)) (Num 1) = Num 2"
  "calculateMultiplier (Num (99 / 2)) (Num 1) = Num 2"
  by (simp_all add: calculateMultiplier_def)

lemma flip_transaction_no_user:
  "user_tbl db uid = None \<Longrightarrow>
   \<exists>e. flip_transaction hm env uid r ss ssh cs db = Inl e"
  by (simp add: flip_transaction_def read_nonce_no_user split: option.splits)

lemma flip_transaction_insufficient:
  "user_tbl db uid = Some row \<Longrightarrow> js_lt (Num (balance row)) (amount r) \<Longrightarrow>
   flip_transaction hm env uid r ss ssh cs db = Inl (Error ''Insufficient balance'')"
  by (simp add: flip_transaction_def read_nonce_user)

lemma flip_transaction_NaN_amount:
  "user_tbl db uid = Some row \<Longrightarrow> amount r = NaN \<Longrightarrow>
   flip_transaction hm env uid r ss ssh cs db = Inl SqliteError"
  by (simp add: flip_transaction_def read_nonce_user tx_defs Let_def)

lemma flip_transaction_duplicate:
  "user_tbl db uid = Some row \<Longrightarrow> \<not> js_lt (Num (balance row)) (amount r) \<Longrightarrow>
   randomUUID env \<in> set (map bet_id (bet_tbl db)) \<Longrightarrow>
   flip_transaction hm env uid r ss ssh cs db = Inl SqliteError"
  by (simp add: flip_transaction_def read_nonce_user tx_defs Let_def
      split: number.splits prod.splits)

lemma flip_transaction_commit:
  assumes "user_tbl db uid = Some row" and "amount r = Num a" and "\<not> balance row < a"
    and "randomUUID env \<notin> set (map bet_id (bet_tbl db))"
  shows "flip_transaction hm env uid r ss ssh cs db =
    (let nonce = Suc (currentNonce_of uid db);
         flipResultValue = generateCoinFlip hm ss cs nonce;
         win = isCoinFlipWin flipResultValue (side r);
         payout = (if win then a * 2 else 0)
     in Inr (\<lparr>res_betId = randomUUID env, res_win = win,
              res_payout = js_div (Math_round (js_mul (Num payout) (Num 100))) (Num 100),
              res_newBalance =
                js_div (Math_round (js_mul (Num (balance row + (payout - a))) (Num 100))) (Num 100),
              res_serverSeedHash = ssh, res_clientSeed = cs, res_nonce = nonce,
              res_flipResult = (if flipResultValue = 0 then Cat else Dog)\<rparr>,
             \<lparr>user_tbl = (user_tbl db)(uid \<mapsto> row\<lparr>balance := balance row + (payout - a)\<rparr>),
              userGameSession_tbl = (userGameSession_tbl db)(uid \<mapsto> nonce),
              bet_tbl = bet_tbl db @
                [\<lparr>bet_id = randomUUID env, bet_userId = uid, bet_gameType = Flip,
                  bet_amount = a, bet_multiplier = 2, bet_win = win,
                  bet_payout = payout, bet_serverSeed = ss, bet_serverSeedHash = ssh,
                  bet_clientSeed = cs, bet_nonce = nonce,
                  bet_gameData = FlipData (side r) (Num (495 / 10)),
                  bet_result = real flipResultValue\<rparr>]\<rparr>))"
  using assms
  by (simp add: flip_transaction_def read_nonce_user flip_multiplier tx_defs Let_def
      mult.commute)

lemma flip_transaction_Inr:
  assumes "flip_transaction hm env uid r ss ssh cs db = Inr (res, db')"
  obtains row a where "user_tbl db uid = Some row" "amount r = Num a"
    "\<not> balance row < a" "randomUUID env \<notin> set (map bet_id (bet_tbl db))"
proof (cases "user_tbl db uid")
  case None
  then show ?thesis
    using assms flip_transaction_no_user [of db uid hm env r ss ssh cs] by auto
next
  case (Some row)
  note row = this
  show ?thesis
  proof (cases "amount r")
    case NaN
    then show ?thesis using assms row by (simp add: flip_transaction_NaN_amount)
  next
    case (Num a)
    note a = this
    show ?thesis
    proof (cases "balance row < a")
      case True
      then show ?thesis using assms row a by (simp add: flip_transaction_insufficient)
    next
      case False
      note enough = this
      show ?thesis
      proof (cases "randomUUID env \<in> set (map bet_id (bet_tbl db))")
        case True
        then show ?thesis
          using assms row a enough by (simp add: flip_transaction_duplicate)
      next
        case False
        show ?thesis using that [OF row a enough False] .
      qed
    qed
  qed
qed

lemma flip_POST_Valid:
  "validateCoinFlipBet (amount r) (side r) (user_balance u) = Valid \<Longrightarrow>
   flip_POST hm sha env (SessionUser u) (Some r) db =
     (case flip_transaction hm env (user_id u) r (randomServerSeed env) (sha (randomServerSeed env))
             (finalClientSeed_of (clientSeed r) env) db of
        Inl e \<Rightarrow> (error_response e, db)
      | Inr (result, db') \<Rightarrow> (Success result, db'))"
  by (simp add: flip_POST_def generateServerSeed_def Let_def)

lemma flip_POST_Invalid:
  "validateCoinFlipBet (amount r) (side r) (user_balance u) = Invalid err \<Longrightarrow>
   flip_POST hm sha env (SessionUser u) (Some r) db = (Failure 400 err, db)"
  by (simp add: flip_POST_def)

lemma flip_POST_Success_Valid:
  assumes "flip_POST hm sha env au body db = (Success res, db')"
  obtains u r where "au = SessionUser u" "body = Some r"
    "validateCoinFlipBet (amount r) (side r) (user_balance u) = Valid"
    "flip_transaction hm env (user_id u) r (randomServerSeed env) (sha (randomServerSeed env))
       (finalClientSeed_of (clientSeed r) env) db = Inr (res, db')"
  using assms
  by (auto simp: flip_POST_def generateServerSeed_def Let_def error_response_def
      split: auth_result.splits option.splits validation.splits sum.splits if_splits)

lemma flip_POST_unchanged_or_Success:
  "snd (flip_POST hm sha env au body db) = db
   \<or> (\<exists>res. flip_POST hm sha env au body db = (Success res, snd (flip_POST hm sha env au body db)))"
  by (auto simp: flip_POST_def generateServerSeed_def Let_def
      split: auth_result.splits option.splits validation.splits sum.splits)

lemma flip_POST_step:
  obtains (unchanged) "snd (flip_POST hm sha env au body db) = db"
  | (settled) uid row b where
      "user_tbl db uid = Some row" "0 < bet_amount b" "bet_amount b \<le> balance row"
      "0 \<le> bet_payout b" "bet_userId b = uid" "bet_nonce b = Suc (currentNonce_of uid db)"
      "bet_tbl (snd (flip_POST hm sha env au body db)) = bet_tbl db @ [b]"
      "userGameSession_tbl (snd (flip_POST hm sha env au body db)) =
         (userGameSession_tbl db)(uid \<mapsto> bet_nonce b)"
      "user_tbl (snd (flip_POST hm sha env au body db)) =
         (user_tbl db)(uid \<mapsto> row\<lparr>balance := balance row + (bet_payout b - bet_amount b)\<rparr>)"
proof -
  let ?db' = "snd (flip_POST hm sha env au body db)"
  consider "?db' = db" | res where "flip_POST hm sha env au body db = (Success res, ?db')"
    using flip_POST_unchanged_or_Success [of hm sha env au body db] by blast
  then show ?thesis
  proof cases
    case 1
    then show ?thesis by (rule unchanged)
  next
    case 2
    then obtain u r where au: "au = SessionUser u" "body = Some r"
      and v: "validateCoinFlipBet (amount r) (side r) (user_balance u) = Valid"
      and tx: "flip_transaction hm env (user_id u) r (randomServerSeed env)
         (sha (randomServerSeed env)) (finalClientSeed_of (clientSeed r) env) db = Inr (res, ?db')"
      by (rule flip_POST_Success_Valid)
    from tx obtain row a where row: "user_tbl db (user_id u) = Some row"
      and a: "amount r = Num a" and enough: "\<not> balance row < a"
      and fresh: "randomUUID env \<notin> set (map bet_id (bet_tbl db))"
      by (rule flip_transaction_Inr)
    have pos: "0 < a" using v a validate_amount_pos(2) by simp
    note commit = flip_transaction_commit [OF row a enough fresh, of hm
        "randomServerSeed env" "sha (randomServerSeed env)" "finalClientSeed_of (clientSeed r) env"]
    have db': "?db' = snd (projr (flip_transaction hm env (user_id u) r (randomServerSeed env)
         (sha (randomServerSeed env)) (finalClientSeed_of (clientSeed r) env) db))"
      using tx by simp
    show ?thesis
      using row enough pos
      by (intro settled [where uid = "user_id u" and row = row and b = "last (bet_tbl ?db')"])
         (simp_all add: db' commit Let_def)
  qed
qed

subsection \<open>Invariants\<close>

lemma nonces_settled:
  assumes inv: "\<And>uid'. nonces_of uid' db = [1..<Suc (currentNonce_of uid' db)]"
    and b: "bet_userId b = uid" "bet_nonce b = Suc (currentNonce_of uid db)"
    and tbl: "bet_tbl db' = bet_tbl db @ [b]"
      "userGameSession_tbl db' = (userGameSession_tbl db)(uid \<mapsto> bet_nonce b)"
  shows "nonces_of uid' db' = [1..<Suc (currentNonce_of uid' db')]"
proof (cases "uid' = uid")
  case True
  have "nonces_of uid db' = nonces_of uid db @ [Suc (currentNonce_of uid db)]"
    using b tbl by (simp add: nonces_of_def)
  moreover have "currentNonce_of uid db' = Suc (currentNonce_of uid db)"
    using b tbl by (simp add: currentNonce_of_def)
  ultimately show ?thesis
    using True inv [of uid] by simp
next
  case False
  have "nonces_of uid' db' = nonces_of uid' db"
    using False b tbl by (simp add: nonces_of_def)
  moreover have "currentNonce_of uid' db' = currentNonce_of uid' db"
    using False tbl by (simp add: currentNonce_of_def)
  ultimately show ?thesis
    using inv [of uid'] by simp
qed

lemma register_user_nonces:
  "nonces_of uid (register_user u db) = nonces_of uid db"
  "currentNonce_of uid (register_user u db) = currentNonce_of uid db"
  by (simp_all add: nonces_of_def currentNonce_of_def register_user_def split: option.splits)

lemma reachable_nonces:
  "reachable hm sha db \<Longrightarrow> nonces_of uid db = [1..<Suc (currentNonce_of uid db)]"
proof (induction arbitrary: uid rule: reachable.induct)
  case initial
  then show ?case by (simp add: nonces_of_def currentNonce_of_def empty_database_def)
next
  case (registered db uid')
  then show ?case
    by (simp add: register_user_nonces)
next
  case (dice_settled db env au body)
  show ?case
  proof (cases rule: dice_POST_step [of hm sha env au body db])
    case unchanged
    then show ?thesis using dice_settled.IH by simp
  next
    case (settled uid' row b)
    then show ?thesis
      using nonces_settled [of db b uid'] dice_settled.IH by blast
  qed
next
  case (flip_settled db env au body)
  show ?case
  proof (cases rule: flip_POST_step [of hm sha env au body db])
    case unchanged
    then show ?thesis using flip_settled.IH by simp
  next
    case (settled uid' row b)
    then show ?thesis
      using nonces_settled [of db b uid'] flip_settled.IH by blast
  qed
qed

lemma balances_settled:
  assumes inv: "\<And>uid' row'. user_tbl db uid' = Some row' \<Longrightarrow> 0 \<le> balance row'"
    and row: "user_tbl db uid = Some row" "bet_amount b \<le> balance row" "0 \<le> bet_payout b"
    and tbl: "user_tbl db' =
         (user_tbl db)(uid \<mapsto> row\<lparr>balance := balance row + (bet_payout b - bet_amount b)\<rparr>)"
    and row': "user_tbl db' uid' = Some row'"
  shows "0 \<le> balance row'"
proof (cases "uid' = uid")
  case True
  then have "balance row' = balance row + (bet_payout b - bet_amount b)"
    using tbl row' by auto
  then show ?thesis using row by simp
next
  case False
  then show ?thesis using tbl row' inv by simp
qed

lemma reachable_balances:
  "reachable hm sha db \<Longrightarrow> user_tbl db uid = Some row \<Longrightarrow> 0 \<le> balance row"
proof (induction arbitrary: uid row rule: reachable.induct)
  case initial
  then show ?case by (simp add: empty_database_def)
next
  case (registered db uid')
  then show ?case
    by (auto simp: register_user_def split: option.splits if_splits)
next
  case (dice_settled db env au body)
  show ?case
  proof (cases rule: dice_POST_step [of hm sha env au body db])
    case unchanged
    then show ?thesis using dice_settled by simp
  next
    case (settled uid' row0 b)
    then show ?thesis
      using balances_settled [of db uid' row0 b _ uid row] dice_settled.IH dice_settled.prems
      by blast
  qed
next
  case (flip_settled db env au body)
  show ?case
  proof (cases rule: flip_POST_step [of hm sha env au body db])
    case unchanged
    then show ?thesis using flip_settled by simp
  next
    case (settled uid' row0 b)
    then show ?thesis
      using balances_settled [of db uid' row0 b _ uid row] flip_settled.IH flip_settled.prems
      by blast
  qed
qed

section \<open>The example run\<close>

lemma example_outcome:
  "deriveOutcome example_hmac example_serverSeed ''xyz'' (Suc 0) = 7503 / 100"
proof -
  have "unat (drop_bit 224 example_digest) = 2795437503"
    by (simp add: example_digest_def unat_drop_bit_div)
  moreover have "number_toString (Suc 0) = ''1''"
    by (simp add: number_toString.simps decimal_chars_def)
  ultimately show ?thesis
    by (simp add: deriveOutcome_def example_hmac_def unat_first32 Let_def)
qed

lemma example_dice_POST:
  "dice_POST example_hmac example_sha256 example_entropy (SessionUser alice)
     (Some example_dice_request) example_database =
   (Success \<lparr>res_betId = ''3b241101-e2bb-4255-8caf-4136c566a962'', res_win = True,
      res_payout = Num 198, res_newBalance = Num 1098,
      res_serverSeedHash = ''9619e2c3275e1e8be9ca29f0d7e0668cfdc675efcac99dbfa3ed48872c69809f'',
      res_clientSeed = ''xyz'', res_nonce = 1, res_roll = Num (7503 / 100)\<rparr>,
    \<lparr>user_tbl = [''alice'' \<mapsto> \<lparr>balance = 1098\<rparr>],
     userGameSession_tbl = [''alice'' \<mapsto> 1],
     bet_tbl = [\<lparr>bet_id = ''3b241101-e2bb-4255-8caf-4136c566a962'', bet_userId = ''alice'',
       bet_gameType = Dice, bet_amount = 100, bet_multiplier = 198 / 100, bet_win = True,
       bet_payout = 198, bet_serverSeed = example_serverSeed,
       bet_serverSeedHash = ''9619e2c3275e1e8be9ca29f0d7e0668cfdc675efcac99dbfa3ed48872c69809f'',
       bet_clientSeed = ''xyz'', bet_nonce = 1,
       bet_gameData = DiceData Over (Num 50) (Num 50), bet_result = 7503 / 100\<rparr>]\<rparr>)"
proof -
  have v: "validateDiceBet (amount example_dice_request) (betType example_dice_request)
     (target example_dice_request) (user_balance alice) = Valid"
    by (simp add: validateDiceBet_def calculateDiceWinChance_def example_dice_request_def alice_def)
  have row: "user_tbl example_database (user_id alice) = Some \<lparr>balance = 1000\<rparr>"
    by (simp add: example_database_def register_user_def empty_database_def alice_def)
  have a: "amount example_dice_request = Num 100"
    by (simp add: example_dice_request_def)
  have enough: "\<not> balance \<lparr>balance = 1000\<rparr> < 100"
    by simp
  have fresh: "randomUUID example_entropy \<notin> set (map bet_id (bet_tbl example_database))"
    by (simp add: example_database_def register_user_def empty_database_def)
  have wc: "calculateDiceWinChance (betType example_dice_request) (target example_dice_request)
      = Num 50"
    by (simp add: calculateDiceWinChance_def example_dice_request_def)
  have m: "calculateMultiplier (Num 50) (Num 1) = Num (198 / 100)"
    by (simp add: calculateMultiplier_def)
  have n: "currentNonce_of (user_id alice) example_database = 0"
    by (simp add: currentNonce_of_def example_database_def register_user_def empty_database_def)
  have cs: "finalClientSeed_of (clientSeed example_dice_request) example_entropy = ''xyz''"
    by (simp add: finalClientSeed_of_def example_dice_request_def)
  have seed: "randomServerSeed example_entropy = example_serverSeed"
    by (simp add: example_entropy_def)
  show ?thesis
    unfolding dice_POST_Valid [OF v] dice_transaction_commit [OF row a enough fresh wc m] n cs
      seed Let_def example_outcome
    by (simp add: isDiceWin_def example_dice_request_def example_entropy_def
        example_sha256_def example_database_def register_user_def empty_database_def alice_def)
qed

lemma example_reachable:
  "reachable example_hmac example_sha256
     (snd (dice_POST example_hmac example_sha256 example_entropy (SessionUser alice)
        (Some example_dice_request) example_database))"
  unfolding example_database_def
  by (intro reachable.dice_settled reachable.registered reachable.initial)

lemma example_flip_POST:
  "flip_POST example_hmac example_sha256 example_entropy (SessionUser bob)
     (Some example_flip_request) example_flip_database =
   (Success \<lparr>res_betId = ''3b241101-e2bb-4255-8caf-4136c566a962'', res_win = False,
      res_payout = Num 0, res_newBalance = Num 450,
      res_serverSeedHash = ''9619e2c3275e1e8be9ca29f0d7e0668cfdc675efcac99dbfa3ed48872c69809f'',
      res_clientSeed = ''xyz'', res_nonce = 1, res_flipResult = Dog\<rparr>,
    \<lparr>user_tbl = [''bob'' \<mapsto> \<lparr>balance = 450\<rparr>],
     userGameSession_tbl = [''bob'' \<mapsto> 1],
     bet_tbl = [\<lparr>bet_id = ''3b241101-e2bb-4255-8caf-4136c566a962'', bet_userId = ''bob'',
       bet_gameType = Flip, bet_amount = 50, bet_multiplier = 2, bet_win = False,
       bet_payout = 0, bet_serverSeed = example_serverSeed,
       bet_serverSeedHash = ''9619e2c3275e1e8be9ca29f0d7e0668cfdc675efcac99dbfa3ed48872c69809f'',
       bet_clientSeed = ''xyz'', bet_nonce = 1,
       bet_gameData = FlipData Cat (Num (495 / 10)), bet_result = 1\<rparr>]\<rparr>)"
proof -
  have v: "validateCoinFlipBet (amount example_flip_request) (side example_flip_request)
     (user_balance bob) = Valid"
    by (simp add: validateCoinFlipBet_def example_flip_request_def bob_def)
  have row: "user_tbl example_flip_database (user_id bob) = Some \<lparr>balance = 500\<rparr>"
    by (simp add: example_flip_database_def bob_def)
  have a: "amount example_flip_request = Num 50"
    by (simp add: example_flip_request_def)
  have enough: "\<not> balance \<lparr>balance = 500\<rparr> < 50"
    by simp
  have fresh: "randomUUID example_entropy \<notin> set (map bet_id (bet_tbl example_flip_database))"
    by (simp add: example_flip_database_def)
  have n: "currentNonce_of (user_id bob) example_flip_database = 0"
    by (simp add: currentNonce_of_def example_flip_database_def)
  have cs: "finalClientSeed_of (clientSeed example_flip_request) example_entropy = ''xyz''"
    by (simp add: finalClientSeed_of_def example_flip_request_def)
  have seed: "randomServerSeed example_entropy = example_serverSeed"
    by (simp add: example_entropy_def)
  show ?thesis
    unfolding flip_POST_Valid [OF v] flip_transaction_commit [OF row a enough fresh] n cs seed
      Let_def generateCoinFlip_eq example_outcome
    by (simp add: isCoinFlipWin_def example_flip_request_def
        example_entropy_def example_sha256_def example_flip_database_def bob_def)
qed

section \<open>Properties of the settlement\<close>

text \<open>
  Claim C3. When the balance read inside the transaction is below the wagered amount,
  the dice and the coin flip transaction throw \<open>Insufficient balance\<close>; the handler
  answers 400 with that message (or with the validation's message when the validation
  had already rejected the request, in which case no transaction was opened), and the
  store after the request is the store before it: no balance change, no bet record, no
  nonce advance.
\<close>

theorem insufficient_balance_atomic:
  assumes "user_tbl db (user_id u) = Some row"
    and "js_lt (Num (balance row)) (amount rd)" and "js_lt (Num (balance row)) (amount rf)"
  shows "dice_transaction hm env (user_id u) rd ss ssh cs db = Inl (Error ''Insufficient balance'')
    \<and> flip_transaction hm env (user_id u) rf ss ssh cs db = Inl (Error ''Insufficient balance'')
    \<and> dice_POST hm sha env (SessionUser u) (Some rd) db =
        (case validateDiceBet (amount rd) (betType rd) (target rd) (user_balance u) of
           Valid \<Rightarrow> (Failure 400 ''Insufficient balance'', db)
         | Invalid err \<Rightarrow> (Failure 400 err, db))
    \<and> flip_POST hm sha env (SessionUser u) (Some rf) db =
        (case validateCoinFlipBet (amount rf) (side rf) (user_balance u) of
           Valid \<Rightarrow> (Failure 400 ''Insufficient balance'', db)
         | Invalid err \<Rightarrow> (Failure 400 err, db))"
proof -
  note d = dice_transaction_insufficient [OF assms(1,2)]
  note f = flip_transaction_insufficient [OF assms(1,3)]
  have "dice_POST hm sha env (SessionUser u) (Some rd) db =
        (case validateDiceBet (amount rd) (betType rd) (target rd) (user_balance u) of
           Valid \<Rightarrow> (Failure 400 ''Insufficient balance'', db)
         | Invalid err \<Rightarrow> (Failure 400 err, db))"
    by (cases "validateDiceBet (amount rd) (betType rd) (target rd) (user_balance u)")
       (simp_all add: dice_POST_Valid dice_POST_Invalid d error_response_def)
  moreover have "flip_POST hm sha env (SessionUser u) (Some rf) db =
        (case validateCoinFlipBet (amount rf) (side rf) (user_balance u) of
           Valid \<Rightarrow> (Failure 400 ''Insufficient balance'', db)
         | Invalid err \<Rightarrow> (Failure 400 err, db))"
    by (cases "validateCoinFlipBet (amount rf) (side rf) (user_balance u)")
       (simp_all add: flip_POST_Valid flip_POST_Invalid f error_response_def)
  ultimately show ?thesis using d f by simp
qed

theorem insufficient_balance_atomic_witness:
  "dice_POST example_hmac example_sha256 example_entropy (SessionUser (alice\<lparr>user_balance := 2000\<rparr>))
     (Some (example_dice_request\<lparr>amount := Num 2000\<rparr>)) example_database
   = (Failure 400 ''Insufficient balance'', example_database)
   \<and> flip_POST example_hmac example_sha256 example_entropy (SessionUser alice)
     (Some (example_flip_request\<lparr>amount := Num 2000\<rparr>)) example_database
   = (Failure 400 ''Insufficient balance'', example_database)"
  using insufficient_balance_atomic [of example_database "alice\<lparr>user_balance := 2000\<rparr>"
      "\<lparr>balance = 1000\<rparr>" "example_dice_request\<lparr>amount := Num 2000\<rparr>"
      "example_flip_request\<lparr>amount := Num 2000\<rparr>" example_hmac example_entropy
      "example_serverSeed" "example_sha256 example_serverSeed" "''xyz''" example_sha256]
    insufficient_balance_atomic [of example_database "alice"
      "\<lparr>balance = 1000\<rparr>" "example_dice_request\<lparr>amount := Num 2000\<rparr>"
      "example_flip_request\<lparr>amount := Num 2000\<rparr>" example_hmac example_entropy
      "example_serverSeed" "example_sha256 example_serverSeed" "''xyz''" example_sha256]
  by (simp add: alice_def example_database_def example_dice_request_def
      example_flip_request_def register_user_def empty_database_def
      validateDiceBet_def validateCoinFlipBet_def calculateDiceWinChance_def)



text \<open>
  Claim C4. In every reachable store the nonces of a user's bets, in the order of
  insertion, are \<open>1, 2, ..., currentNonce\<close>: strictly increasing, without gap or
  duplicate (a user without counter row counts as 0). A dice or coin flip request either
  leaves the store as it was, or appends one bet whose nonce is the user's counter plus
  one and stores that nonce as the user's counter, in the same transaction.
\<close>

theorem nonce_sequence:
  assumes "reachable hm sha db"
  shows "nonces_of uid db = [1..<Suc (currentNonce_of uid db)]
    \<and> sorted_wrt (<) (nonces_of uid db) \<and> distinct (nonces_of uid db)
    \<and> (snd (dice_POST hm sha env au body db) = db
        \<or> (\<exists>b. bet_tbl (snd (dice_POST hm sha env au body db)) = bet_tbl db @ [b]
              \<and> bet_nonce b = Suc (currentNonce_of (bet_userId b) db)
              \<and> userGameSession_tbl (snd (dice_POST hm sha env au body db)) =
                  (userGameSession_tbl db)(bet_userId b \<mapsto> bet_nonce b)))
    \<and> (snd (flip_POST hm sha env au body' db) = db
        \<or> (\<exists>b. bet_tbl (snd (flip_POST hm sha env au body' db)) = bet_tbl db @ [b]
              \<and> bet_nonce b = Suc (currentNonce_of (bet_userId b) db)
              \<and> userGameSession_tbl (snd (flip_POST hm sha env au body' db)) =
                  (userGameSession_tbl db)(bet_userId b \<mapsto> bet_nonce b)))"
proof -
  have seq: "nonces_of uid db = [1..<Suc (currentNonce_of uid db)]"
    using assms by (rule reachable_nonces)
  then have ord: "sorted_wrt (<) (nonces_of uid db)" "distinct (nonces_of uid db)"
    by (simp_all del: upt_Suc)
  have dice: "snd (dice_POST hm sha env au body db) = db
        \<or> (\<exists>b. bet_tbl (snd (dice_POST hm sha env au body db)) = bet_tbl db @ [b]
              \<and> bet_nonce b = Suc (currentNonce_of (bet_userId b) db)
              \<and> userGameSession_tbl (snd (dice_POST hm sha env au body db)) =
                  (userGameSession_tbl db)(bet_userId b \<mapsto> bet_nonce b))"
    by (cases rule: dice_POST_step [of hm sha env au body db]) auto
  have flip: "snd (flip_POST hm sha env au body' db) = db
        \<or> (\<exists>b. bet_tbl (snd (flip_POST hm sha env au body' db)) = bet_tbl db @ [b]
              \<and> bet_nonce b = Suc (currentNonce_of (bet_userId b) db)
              \<and> userGameSession_tbl (snd (flip_POST hm sha env au body' db)) =
                  (userGameSession_tbl db)(bet_userId b \<mapsto> bet_nonce b))"
    by (cases rule: flip_POST_step [of hm sha env au body' db]) auto
  show ?thesis using seq ord dice flip by blast
qed

theorem nonce_sequence_witness:
  "nonces_of ''alice''
     (snd (dice_POST example_hmac example_sha256 example_entropy (SessionUser alice)
        (Some example_dice_request) example_database)) = [1]"
  using nonce_sequence [OF example_reachable, of "''alice''"]
  by (simp add: example_dice_POST currentNonce_of_def)


text \<open>
  Claim C5. In every reachable store every balance is non-negative. A dice or coin flip
  request either leaves the store as it was, or replaces the balance of one user by
  \<open>balance + payout - amount\<close>, where the amount is at most the balance read in the
  transaction and the payout is non-negative.
\<close>

theorem balance_nonnegative:
  assumes "reachable hm sha db" and "user_tbl db uid = Some row"
  shows "0 \<le> balance row
    \<and> (snd (dice_POST hm sha env au body db) = db
        \<or> (\<exists>uid' row' b. user_tbl db uid' = Some row' \<and> bet_amount b \<le> balance row'
              \<and> 0 \<le> bet_payout b
              \<and> bet_tbl (snd (dice_POST hm sha env au body db)) = bet_tbl db @ [b]
              \<and> user_tbl (snd (dice_POST hm sha env au body db)) =
                  (user_tbl db)(uid' \<mapsto> row'\<lparr>balance := balance row' + bet_payout b - bet_amount b\<rparr>)))
    \<and> (snd (flip_POST hm sha env au body' db) = db
        \<or> (\<exists>uid' row' b. user_tbl db uid' = Some row' \<and> bet_amount b \<le> balance row'
              \<and> 0 \<le> bet_payout b
              \<and> bet_tbl (snd (flip_POST hm sha env au body' db)) = bet_tbl db @ [b]
              \<and> user_tbl (snd (flip_POST hm sha env au body' db)) =
                  (user_tbl db)(uid' \<mapsto> row'\<lparr>balance := balance row' + bet_payout b - bet_amount b\<rparr>)))"
proof -
  have e: "x + (y - z) = x + y - z" for x y z :: real by simp
  have inv: "0 \<le> balance row"
    using assms by (rule reachable_balances)
  have dice: "snd (dice_POST hm sha env au body db) = db
        \<or> (\<exists>uid' row' b. user_tbl db uid' = Some row' \<and> bet_amount b \<le> balance row'
              \<and> 0 \<le> bet_payout b
              \<and> bet_tbl (snd (dice_POST hm sha env au body db)) = bet_tbl db @ [b]
              \<and> user_tbl (snd (dice_POST hm sha env au body db)) =
                  (user_tbl db)(uid' \<mapsto> row'\<lparr>balance := balance row' + bet_payout b - bet_amount b\<rparr>))"
    by (cases rule: dice_POST_step [of hm sha env au body db]) (auto simp: e)
  have flip: "snd (flip_POST hm sha env au body' db) = db
        \<or> (\<exists>uid' row' b. user_tbl db uid' = Some row' \<and> bet_amount b \<le> balance row'
              \<and> 0 \<le> bet_payout b
              \<and> bet_tbl (snd (flip_POST hm sha env au body' db)) = bet_tbl db @ [b]
              \<and> user_tbl (snd (flip_POST hm sha env au body' db)) =
                  (user_tbl db)(uid' \<mapsto> row'\<lparr>balance := balance row' + bet_payout b - bet_amount b\<rparr>))"
    by (cases rule: flip_POST_step [of hm sha env au body' db]) (auto simp: e)
  show ?thesis using inv dice flip by blast
qed

theorem balance_nonnegative_witness:
  "user_tbl (snd (dice_POST example_hmac example_sha256 example_entropy (SessionUser alice)
        (Some example_dice_request) example_database)) ''alice'' = Some \<lparr>balance = 1098\<rparr>
   \<and> (0::real) \<le> balance \<lparr>balance = 1098\<rparr>"
  using balance_nonnegative [OF example_reachable, of "''alice''" "\<lparr>balance = 1098\<rparr>"]
  by (simp add: example_dice_POST)



text \<open>
  Claim C6. A dice roll wins iff the bet is \<open>over\<close> and the roll exceeds the target, or
  the bet is \<open>under\<close> and the roll is below it. For amount 100, \<open>over\<close>, target 50 and
  balance 1000 the win chance is 50 and the multiplier 1.98; the request is settled, and
  the committed balance is 1098 with payout 198 when the roll exceeds 50, and 900 with
  payout 0 otherwise.
\<close>

theorem dice_settlement_math:
  assumes "user_tbl db (user_id u) = Some row" and "balance row = 1000"
    and "100 \<le> user_balance u"
    and "amount r = Num 100" and "betType r = Over" and "target r = Num 50"
    and "randomUUID env \<notin> set (map bet_id (bet_tbl db))"
  shows "(isDiceWin (Num x) bt (Num t) \<longleftrightarrow> (bt = Over \<and> x > t) \<or> (bt = Under \<and> x < t))
    \<and> calculateDiceWinChance (betType r) (target r) = Num 50
    \<and> calculateMultiplier (Num 50) (Num 1) = Num (198 / 100)
    \<and> (\<exists>res db' b.
          dice_POST hm sha env (SessionUser u) (Some r) db = (Success res, db')
          \<and> bet_tbl db' = bet_tbl db @ [b]
          \<and> bet_result b = deriveOutcome hm (randomServerSeed env)
                (finalClientSeed_of (clientSeed r) env) (Suc (currentNonce_of (user_id u) db))
          \<and> bet_multiplier b = 198 / 100
          \<and> bet_win b = (bet_result b > 50) \<and> res_win res = bet_win b
          \<and> bet_payout b = (if bet_win b then 198 else 0)
          \<and> res_payout res = Num (if bet_win b then 198 else 0)
          \<and> user_tbl db' (user_id u) = Some (row\<lparr>balance := if bet_win b then 1098 else 900\<rparr>)
          \<and> res_newBalance res = Num (if bet_win b then 1098 else 900))"
proof -
  have w: "isDiceWin (Num x) bt (Num t) \<longleftrightarrow> (bt = Over \<and> x > t) \<or> (bt = Under \<and> x < t)"
    by (cases bt) (simp_all add: isDiceWin_def)
  have c: "calculateDiceWinChance (betType r) (target r) = Num 50"
    using assms by (simp add: calculateDiceWinChance_def)
  have m: "calculateMultiplier (Num 50) (Num 1) = Num (198 / 100)"
    by (simp add: calculateMultiplier_def)
  have v: "validateDiceBet (amount r) (betType r) (target r) (user_balance u) = Valid"
    using assms by (simp add: validateDiceBet_def calculateDiceWinChance_def)
  have enough: "\<not> balance row < 100"
    using assms by simp
  note commit = dice_transaction_commit [OF assms(1) assms(4) enough assms(7) c m, of hm
      "randomServerSeed env" "sha (randomServerSeed env)" "finalClientSeed_of (clientSeed r) env"]
  have "\<exists>res db' b.
          dice_POST hm sha env (SessionUser u) (Some r) db = (Success res, db')
          \<and> bet_tbl db' = bet_tbl db @ [b]
          \<and> bet_result b = deriveOutcome hm (randomServerSeed env)
                (finalClientSeed_of (clientSeed r) env) (Suc (currentNonce_of (user_id u) db))
          \<and> bet_multiplier b = 198 / 100
          \<and> bet_win b = (bet_result b > 50) \<and> res_win res = bet_win b
          \<and> bet_payout b = (if bet_win b then 198 else 0)
          \<and> res_payout res = Num (if bet_win b then 198 else 0)
          \<and> user_tbl db' (user_id u) = Some (row\<lparr>balance := if bet_win b then 1098 else 900\<rparr>)
          \<and> res_newBalance res = Num (if bet_win b then 1098 else 900)"
    unfolding dice_POST_Valid [OF v] commit Let_def
    using assms(2,5,6)
    by (simp add: isDiceWin_def)
  then show ?thesis using w c m by blast
qed

theorem dice_settlement_math_witness:
  "(case fst (dice_POST example_hmac example_sha256 example_entropy (SessionUser alice)
       (Some example_dice_request) example_database) of
      Success res \<Rightarrow>
        res_win res \<and> res_payout res = Num 198 \<and> res_newBalance res = Num 1098
    | Failure _ _ \<Rightarrow> False)"
proof -
  have row: "user_tbl example_database (user_id alice) = Some \<lparr>balance = 1000\<rparr>"
    by (simp add: example_database_def register_user_def empty_database_def alice_def)
  have fresh: "randomUUID example_entropy \<notin> set (map bet_id (bet_tbl example_database))"
    by (simp add: example_database_def register_user_def empty_database_def)
  have "\<exists>res db'. dice_POST example_hmac example_sha256 example_entropy (SessionUser alice)
     (Some example_dice_request) example_database = (Success res, db')"
    using dice_settlement_math [where db = example_database and u = alice
        and r = example_dice_request and env = example_entropy and hm = example_hmac
        and sha = example_sha256 and x = 0 and bt = Over and t = 0, OF row _ _ _ _ _ fresh]
    by (simp add: alice_def example_dice_request_def) blast
  then show ?thesis by (simp add: example_dice_POST)
qed

text \<open>
  Claim C8. The coin flip maps a derived result below 50 to 0 (cat) and any other to 1
  (dog); the bet wins iff the chosen side is the side of that value. The win chance is
  the constant 49.5 and the multiplier 2. For amount 50 and balance 500 the request is
  settled, and the committed balance is 550 with payout 100 on a win and 450 with payout
  0 on a loss.
\<close>

theorem coin_flip_semantics:
  assumes "user_tbl db (user_id u) = Some row" and "balance row = 500"
    and "50 \<le> user_balance u" and "amount r = Num 50"
    and "randomUUID env \<notin> set (map bet_id (bet_tbl db))"
  shows "generateCoinFlip hm ss cs n = (if deriveOutcome hm ss cs n < 50 then 0 else 1)
    \<and> (isCoinFlipWin (generateCoinFlip hm ss cs n) s \<longleftrightarrow>
          s = (if generateCoinFlip hm ss cs n = 0 then Cat else Dog))
    \<and> calculateMultiplier (Num (495 / 10)) (Num 1) = Num 2
    \<and> (\<exists>res db' b.
          flip_POST hm sha env (SessionUser u) (Some r) db = (Success res, db')
          \<and> bet_tbl db' = bet_tbl db @ [b]
          \<and> bet_result b = real (generateCoinFlip hm (randomServerSeed env)
                (finalClientSeed_of (clientSeed r) env) (Suc (currentNonce_of (user_id u) db)))
          \<and> res_flipResult res = (if bet_result b = 0 then Cat else Dog)
          \<and> bet_multiplier b = 2
          \<and> bet_win b = (side r = res_flipResult res) \<and> res_win res = bet_win b
          \<and> bet_payout b = (if bet_win b then 100 else 0)
          \<and> res_payout res = Num (if bet_win b then 100 else 0)
          \<and> user_tbl db' (user_id u) = Some (row\<lparr>balance := if bet_win b then 550 else 450\<rparr>)
          \<and> res_newBalance res = Num (if bet_win b then 550 else 450))"
proof -
  have w: "isCoinFlipWin (generateCoinFlip hm ss cs n) s \<longleftrightarrow>
          s = (if generateCoinFlip hm ss cs n = 0 then Cat else Dog)"
    by (cases s) (simp_all add: isCoinFlipWin_def generateCoinFlip_eq)
  have v: "validateCoinFlipBet (amount r) (side r) (user_balance u) = Valid"
    using assms by (cases "side r") (simp_all add: validateCoinFlipBet_def)
  have enough: "\<not> balance row < 50"
    using assms by simp
  note commit = flip_transaction_commit [OF assms(1) assms(4) enough assms(5), of hm
      "randomServerSeed env" "sha (randomServerSeed env)" "finalClientSeed_of (clientSeed r) env"]
  have "\<exists>res db' b.
          flip_POST hm sha env (SessionUser u) (Some r) db = (Success res, db')
          \<and> bet_tbl db' = bet_tbl db @ [b]
          \<and> bet_result b = real (generateCoinFlip hm (randomServerSeed env)
                (finalClientSeed_of (clientSeed r) env) (Suc (currentNonce_of (user_id u) db)))
          \<and> res_flipResult res = (if bet_result b = 0 then Cat else Dog)
          \<and> bet_multiplier b = 2
          \<and> bet_win b = (side r = res_flipResult res) \<and> res_win res = bet_win b
          \<and> bet_payout b = (if bet_win b then 100 else 0)
          \<and> res_payout res = Num (if bet_win b then 100 else 0)
          \<and> user_tbl db' (user_id u) = Some (row\<lparr>balance := if bet_win b then 550 else 450\<rparr>)
          \<and> res_newBalance res = Num (if bet_win b then 550 else 450)"
    unfolding flip_POST_Valid [OF v] commit Let_def
    using assms(2)
    by (cases "side r") (simp_all add: isCoinFlipWin_def generateCoinFlip_eq)
  then show ?thesis using w generateCoinFlip_eq [of hm ss cs n] flip_multiplier(1) by blast
qed

theorem coin_flip_semantics_witness:
  "(case fst (flip_POST example_hmac example_sha256 example_entropy (SessionUser bob)
        (Some example_flip_request) example_flip_database) of
      Success res \<Rightarrow>
        res_flipResult res = Dog \<and> \<not> res_win res \<and> res_payout res = Num 0
        \<and> res_newBalance res = Num 450
    | Failure _ _ \<Rightarrow> False)"
proof -
  have row: "user_tbl example_flip_database (user_id bob) = Some \<lparr>balance = 500\<rparr>"
    by (simp add: example_flip_database_def bob_def)
  have fresh: "randomUUID example_entropy \<notin> set (map bet_id (bet_tbl example_flip_database))"
    by (simp add: example_flip_database_def)
  have "\<exists>res db'. flip_POST example_hmac example_sha256 example_entropy (SessionUser bob)
        (Some example_flip_request) example_flip_database = (Success res, db')"
    using coin_flip_semantics [where db = example_flip_database and u = bob
        and r = example_flip_request and env = example_entropy
        and hm = example_hmac and sha = example_sha256 and ss = "[]" and cs = "[]" and n = 0
        and s = Cat, OF row _ _ _ fresh]
    by (simp add: bob_def example_flip_request_def) blast
  then show ?thesis by (simp add: example_flip_POST)
qed

section \<open>Verification of persisted bets\<close>

text \<open>
  A settled dice bet verifies: the seed hash is valid and the recomputed roll is the
  stored one. For a settled coin flip the endpoint compares the stored side (0 or 1)
  with the raw derived result, so the bet verifies only when that result is 0.00, although
  the recomputed side it reports is the stored one.
\<close>

lemma filter_fresh_id:
  "i \<notin> set (map bet_id bs) \<Longrightarrow> filter (\<lambda>b. bet_id b = i \<and> bet_userId b = uid) bs = []"
  by (induction bs) auto

lemma verifyGameResult_eq:
  "verifyGameResult hm ss cs n (Num x) \<longleftrightarrow> \<bar>deriveOutcome hm ss cs n - x\<bar> < 1 / 100"
  by (simp add: verifyGameResult_def generateGameResult_eq)

lemma flip_result_matches_iff:
  "\<bar>deriveOutcome hm ss cs n - real (generateCoinFlip hm ss cs n)\<bar> < 1 / 100
   \<longleftrightarrow> deriveOutcome hm ss cs n = 0"
proof -
  obtain k :: nat where k: "k < 10000" "deriveOutcome hm ss cs n = real k / 100"
    using deriveOutcome_in_outcomes [of hm ss cs n] by (auto simp: outcomes_def)
  show ?thesis
  proof (cases "k < 5000")
    case True
    then have "generateCoinFlip hm ss cs n = 0"
      by (simp add: generateCoinFlip_eq k)
    then show ?thesis by (simp add: k(2))
  next
    case False
    then have "generateCoinFlip hm ss cs n = 1"
      by (simp add: generateCoinFlip_eq k)
    moreover have "real k / 100 \<ge> 50" using False by simp
    ultimately show ?thesis by (simp add: k(2))
  qed
qed

lemma verifyGameResult_dice: "verifyGameResult hm ss cs n (Num (deriveOutcome hm ss cs n))"
  by (simp add: verifyGameResult_eq)

lemma verifyGameResult_flip:
  "verifyGameResult hm ss cs n (Num (real (generateCoinFlip hm ss cs n)))
   \<longleftrightarrow> deriveOutcome hm ss cs n = 0"
  by (simp only: verifyGameResult_eq flip_result_matches_iff)

lemma verify_dice_roundtrip:
  assumes "dice_POST hm sha env au body db = (Success res, db')" and "res_betId res \<noteq> []"
  shows "\<exists>v. verify_GET hm sha au (Some (res_betId res)) db' = Success v
    \<and> v_seedHashValid v \<and> v_verified v"
proof -
  from assms(1) obtain u r where au: "au = SessionUser u"
    and tx: "dice_transaction hm env (user_id u) r (randomServerSeed env)
       (sha (randomServerSeed env)) (finalClientSeed_of (clientSeed r) env) db = Inr (res, db')"
    by (rule dice_POST_Success_Valid)
  from tx obtain row a wc m where row: "user_tbl db (user_id u) = Some row"
    and a: "amount r = Num a" and enough: "\<not> balance row < a"
    and fresh: "randomUUID env \<notin> set (map bet_id (bet_tbl db))"
    and wc: "calculateDiceWinChance (betType r) (target r) = Num wc"
    and m: "calculateMultiplier (Num wc) (Num 1) = Num m"
    by (rule dice_transaction_Inr)
  note old = filter_fresh_id [OF fresh, of "user_id u"]
  show ?thesis
    using tx assms(2) old
    unfolding dice_transaction_commit [OF row a enough fresh wc m] Let_def au
    by (auto simp: verify_GET_def verifyServerSeed_def verifyGameResult_dice)
qed

lemma verify_flip_persisted:
  assumes "flip_POST hm sha env au body db = (Success res, db')" and "res_betId res \<noteq> []"
  shows "\<exists>v. verify_GET hm sha au (Some (res_betId res)) db' = Success v
    \<and> v_seedHashValid v \<and> v_calculatedResult v = Num (v_expectedResult v)
    \<and> (v_verified v \<longleftrightarrow>
         deriveOutcome hm (randomServerSeed env) (res_clientSeed res) (res_nonce res) = 0)"
proof -
  from assms(1) obtain u r where au: "au = SessionUser u"
    and tx: "flip_transaction hm env (user_id u) r (randomServerSeed env)
       (sha (randomServerSeed env)) (finalClientSeed_of (clientSeed r) env) db = Inr (res, db')"
    by (rule flip_POST_Success_Valid)
  from tx obtain row a where row: "user_tbl db (user_id u) = Some row"
    and a: "amount r = Num a" and enough: "\<not> balance row < a"
    and fresh: "randomUUID env \<notin> set (map bet_id (bet_tbl db))"
    by (rule flip_transaction_Inr)
  note old = filter_fresh_id [OF fresh, of "user_id u"]
  show ?thesis
    using tx assms(2) old unfolding flip_transaction_commit [OF row a enough fresh] Let_def au
    by (auto simp: verify_GET_def verifyServerSeed_def verifyGameResult_flip)
qed

text \<open>
  Claim C1, evaluated on the example run. The coin flip bet settled for \<open>bob\<close> (server
  seed \<open>example_serverSeed\<close>, client seed \<open>xyz\<close>, nonce 1, derived result 75.03, stored
  result 1) has a valid seed hash and a recomputed result equal to the stored one, and
  the verification endpoint reports it as not verified.
\<close>

theorem flip_bet_fails_verification:
  "verify_GET example_hmac example_sha256 (SessionUser bob)
     (Some ''3b241101-e2bb-4255-8caf-4136c566a962'')
     (snd (flip_POST example_hmac example_sha256 example_entropy (SessionUser bob)
        (Some example_flip_request) example_flip_database))
   = Success \<lparr>v_betId = ''3b241101-e2bb-4255-8caf-4136c566a962'', v_verified = False,
       v_expectedResult = 1, v_calculatedResult = Num 1, v_gameType = Flip,
       v_seedHashValid = True\<rparr>"
  unfolding example_flip_POST
  by (simp add: verify_GET_def verifyServerSeed_def verifyGameResult_eq
      generateCoinFlip_eq example_outcome bob_def example_sha256_def)

section \<open>Requests without a numeric target\<close>

text \<open>
  With a target that is \<open>NaN\<close> every comparison of the validation is false, so the
  validation accepts the bet whenever the amount passes; the transaction is opened and
  fails at the insert, because the multiplier is \<open>NaN\<close>.
\<close>

lemma dice_POST_NaN_target:
  assumes "target r = NaN" and "amount r = Num a" and "0 < a" and "a \<le> user_balance u"
    and "user_tbl db (user_id u) = Some row" and "a \<le> balance row"
  shows "validateDiceBet (amount r) (betType r) (target r) (user_balance u) = Valid"
    and "dice_transaction hm env (user_id u) r (randomServerSeed env) (sha (randomServerSeed env))
       (finalClientSeed_of (clientSeed r) env) db = Inl SqliteError"
    and "dice_POST hm sha env (SessionUser u) (Some r) db =
       (Failure 500 ''Internal server error'', db)"
proof -
  show v: "validateDiceBet (amount r) (betType r) (target r) (user_balance u) = Valid"
    using assms by (simp add: validateDiceBet_NaN_target)
  have enough: "\<not> js_lt (Num (balance row)) (amount r)"
    using assms by simp
  show tx: "dice_transaction hm env (user_id u) r (randomServerSeed env)
       (sha (randomServerSeed env)) (finalClientSeed_of (clientSeed r) env) db = Inl SqliteError"
    using assms(5) enough assms(1) by (rule dice_transaction_NaN_target)
  show "dice_POST hm sha env (SessionUser u) (Some r) db =
       (Failure 500 ''Internal server error'', db)"
    by (simp add: dice_POST_Valid [OF v] tx error_response_def)
qed

text \<open>
  Claim C7, evaluated on a request body without \<open>target\<close>: amount 100, \<open>over\<close>, sent by
  \<open>alice\<close> (balance 1000). The target is not in [0.01, 99.99], yet the validation
  accepts the bet, the transaction is opened and throws, and the answer is 500 instead
  of a 400 from the validation.
\<close>

theorem dice_bet_without_target_accepted:
  "validateDiceBet (Num 100) Over NaN 1000 = Valid
   \<and> dice_transaction example_hmac example_entropy ''alice''
        (example_dice_request\<lparr>target := NaN\<rparr>) example_serverSeed
        (example_sha256 example_serverSeed) ''xyz'' example_database = Inl SqliteError
   \<and> dice_POST example_hmac example_sha256 example_entropy (SessionUser alice)
        (Some (example_dice_request\<lparr>target := NaN\<rparr>)) example_database
      = (Failure 500 ''Internal server error'', example_database)"
proof -
  let ?r = "example_dice_request\<lparr>target := NaN\<rparr>"
  have row: "user_tbl example_database (user_id alice) = Some \<lparr>balance = 1000\<rparr>"
    by (simp add: example_database_def register_user_def empty_database_def alice_def)
  have t: "target ?r = NaN" and a: "amount ?r = Num 100"
    by (simp_all add: example_dice_request_def)
  have b: "(100::real) \<le> user_balance alice" "(100::real) \<le> balance \<lparr>balance = 1000\<rparr>"
    by (simp_all add: alice_def)
  have pos: "(0::real) < 100" by simp
  note n = dice_POST_NaN_target [OF t a pos b(1) row b(2)]
  have "validateDiceBet (Num 100) Over NaN 1000 = Valid"
    using n(1) by (simp add: example_dice_request_def alice_def)
  moreover have "dice_transaction example_hmac example_entropy ''alice'' ?r example_serverSeed
        (example_sha256 example_serverSeed) ''xyz'' example_database = Inl SqliteError"
    using row by (intro dice_transaction_NaN_target [where row = "\<lparr>balance = 1000\<rparr>"])
      (simp_all add: alice_def example_dice_request_def)
  ultimately show ?thesis using n(3) by simp
qed

end
